theory Spec2Isabelle
  imports Main
begin

section \<open>Python text operations used by the extraction helpers\<close>

text \<open>
  A Python \<open>str\<close> is modelled as a \<open>string\<close> whose characters are code points below 256.
  \<open>isspace\<close> lists the code points of that range that \<open>str.strip()\<close> removes:
  TAB, LF, VT, FF, CR, the separators FS, GS, RS and US, the space, NEL and the no-break space.
\<close>

definition isspace :: "char \<Rightarrow> bool" where
  "isspace c = (c \<in> set [CHR 0x09, CHR 0x0A, CHR 0x0B, CHR 0x0C, CHR 0x0D,
                         CHR 0x1C, CHR 0x1D, CHR 0x1E, CHR 0x1F, CHR 0x20,
                         CHR 0x85, CHR 0xA0])"

text \<open>\<open>s.strip()\<close>\<close>

definition py_strip :: "string \<Rightarrow> string" where
  "py_strip s = rev (dropWhile isspace (rev (dropWhile isspace s)))"

text \<open>\<open>s.startswith(p)\<close> and \<open>s.endswith(p)\<close>\<close>

definition startswith :: "string \<Rightarrow> string \<Rightarrow> bool" where
  "startswith s p = (take (length p) s = p)"

definition endswith :: "string \<Rightarrow> string \<Rightarrow> bool" where
  "endswith s p = startswith (rev s) (rev p)"

text \<open>
  \<open>s[3:-3]\<close>: the characters from index 3 up to, not including, index \<open>len(s) - 3\<close>;
  empty when the string is shorter than six characters.
\<close>

definition slice_3_m3 :: "string \<Rightarrow> string" where
  "slice_3_m3 s = take (length s - 3 - 3) (drop 3 s)"

text \<open>\<open>s.find(p)\<close>: the index of the first occurrence of \<open>p\<close> in \<open>s\<close>, if any.\<close>

fun find_str :: "string \<Rightarrow> string \<Rightarrow> nat option" where
  "find_str p [] = (if p = [] then Some 0 else None)"
| "find_str p (c # cs) =
     (if startswith (c # cs) p then Some 0 else map_option Suc (find_str p cs))"

section \<open>Response extraction: \<open>_extract_code\<close>\<close>

text \<open>
  The pattern \<open>```{language}\n(.*?)\n```\<close> compiled with \<open>re.DOTALL\<close>, for a language tag
  that holds no regular-expression metacharacter (the program's tags are \<open>python\<close>,
  \<open>json\<close> and \<open>latex\<close>). \<open>pattern.search(text)\<close> takes the leftmost opening fence
  and, the group being lazy, the first closing fence after it; when no closing fence
  follows the leftmost opening fence none follows a later one either, so the search fails.
  \<open>pattern_search\<close> returns \<open>match.group(1)\<close>.
\<close>

definition regex_literal :: "string \<Rightarrow> bool" where
  "regex_literal language = (set language \<inter> set (''.^$*+?{}[]|()'' @ [CHR 0x5C]) = {})"

definition fence_open :: "string \<Rightarrow> string" where
  "fence_open language = ''```'' @ language @ [CHR 0x0A]"

definition fence_close :: string where
  "fence_close = CHR 0x0A # ''```''"

definition pattern_search :: "string \<Rightarrow> string \<Rightarrow> string option" where
  "pattern_search language text =
     (case find_str (fence_open language) text of
        None \<Rightarrow> None
      | Some i \<Rightarrow>
          (let rest = drop (i + length (fence_open language)) text in
           case find_str fence_close rest of
             None \<Rightarrow> None
           | Some j \<Rightarrow> Some (take j rest)))"

text \<open>
  \<open>_extract_code(text, language)\<close>, the same in both workflow files: the trimmed interior
  of the first tagged fence; else, when the trimmed text starts and ends with a fence,
  the trimmed text between them; else the text as it is.
\<close>

definition extract_code :: "string \<Rightarrow> string \<Rightarrow> string" where
  "extract_code text language =
     (case pattern_search language text of
        Some group1 \<Rightarrow> py_strip group1
      | None \<Rightarrow>
          if startswith (py_strip text) ''```'' \<and> endswith (py_strip text) ''```''
          then py_strip (slice_3_m3 (py_strip text))
          else text)"

definition wrap_in_fence :: "string \<Rightarrow> string \<Rightarrow> string" where
  "wrap_in_fence X language = fence_open language @ X @ fence_close"

section \<open>Decoded JSON values and the Python operations applied to them\<close>

text \<open>
  What \<open>json.loads\<close> returns: \<open>None\<close>, a bool, a number, a \<open>str\<close>, a \<open>list\<close> or a \<open>dict\<close>
  with \<open>str\<close> keys (an association list; a key is looked up with \<open>map_of\<close>). Numbers
  are integers here: the program applies no arithmetic to a decoded number, and under every
  operation below a float behaves as an integer does.
\<close>

datatype json =
    JNull
  | JBool bool
  | JNum int
  | JStr string
  | JArr "json list"
  | JObj "(string \<times> json) list"

text \<open>
  The exceptions the two scripts raise, catch or can receive from the calls they make.
  \<open>JSONDecodeError\<close> carries its \<open>doc\<close> attribute, the text that could not be decoded;
  \<open>CalledProcessError\<close> carries the return code and the captured stdout and stderr.
  \<open>Timeout\<close>, \<open>ConnectionError\<close> and \<open>HTTPError\<close> are the ones of \<open>requests.exceptions\<close>;
  \<open>RequestsJSONDecodeError\<close> is \<open>requests.exceptions.JSONDecodeError\<close>, which \<open>response.json()\<close>
  raises on a body that is not JSON: a subclass of both \<open>RequestException\<close> and
  \<open>json.JSONDecodeError\<close>.
\<close>

datatype exn =
    ValueError
  | JSONDecodeError string
  | UnicodeDecodeError
  | UnicodeEncodeError
  | KeyError
  | IndexError
  | AttributeError
  | TypeError
  | UnboundLocalError
  | FileNotFoundError
  | IsADirectoryError
  | OSError
  | CalledProcessError int string string
  | Timeout
  | ConnectionError
  | HTTPError
  | RequestsJSONDecodeError

text \<open>The classes named in the scripts' \<open>except\<close> clauses, and Python's subclass relation.\<close>

datatype exc_class =
    ValueError_cls
  | FileNotFoundError_cls
  | RequestException_cls
  | CalledProcessError_cls
  | JSONDecodeError_cls
  | KeyError_cls
  | AttributeError_cls
  | Exception_cls

fun isinstance :: "exn \<Rightarrow> exc_class \<Rightarrow> bool" where
  "isinstance e Exception_cls = True"
| "isinstance e ValueError_cls =
     (case e of ValueError \<Rightarrow> True | JSONDecodeError d \<Rightarrow> True | UnicodeDecodeError \<Rightarrow> True
      | UnicodeEncodeError \<Rightarrow> True | RequestsJSONDecodeError \<Rightarrow> True | _ \<Rightarrow> False)"
| "isinstance e JSONDecodeError_cls =
     (case e of JSONDecodeError d \<Rightarrow> True | RequestsJSONDecodeError \<Rightarrow> True | _ \<Rightarrow> False)"
| "isinstance e FileNotFoundError_cls = (case e of FileNotFoundError \<Rightarrow> True | _ \<Rightarrow> False)"
| "isinstance e RequestException_cls =
     (case e of Timeout \<Rightarrow> True | ConnectionError \<Rightarrow> True | HTTPError \<Rightarrow> True
      | RequestsJSONDecodeError \<Rightarrow> True | _ \<Rightarrow> False)"
| "isinstance e CalledProcessError_cls =
     (case e of CalledProcessError rc out err \<Rightarrow> True | _ \<Rightarrow> False)"
| "isinstance e KeyError_cls = (case e of KeyError \<Rightarrow> True | _ \<Rightarrow> False)"
| "isinstance e AttributeError_cls = (case e of AttributeError \<Rightarrow> True | _ \<Rightarrow> False)"

text \<open>\<open>except (A, B, ...)\<close>\<close>

definition caught_by :: "exn \<Rightarrow> exc_class list \<Rightarrow> bool" where
  "caught_by e classes = list_ex (isinstance e) classes"

text \<open>Truth value of a decoded value (\<open>if x:\<close>, \<open>not x\<close>, \<open>x and ...\<close>).\<close>

fun truthy :: "json \<Rightarrow> bool" where
  "truthy JNull = False"
| "truthy (JBool b) = b"
| "truthy (JNum n) = (n \<noteq> 0)"
| "truthy (JStr s) = (s \<noteq> [])"
| "truthy (JArr xs) = (xs \<noteq> [])"
| "truthy (JObj kvs) = (kvs \<noteq> [])"

text \<open>\<open>x.get(key, default)\<close>: only a \<open>dict\<close> has the attribute \<open>get\<close>.\<close>

fun dict_get :: "json \<Rightarrow> string \<Rightarrow> json \<Rightarrow> exn + json" where
  "dict_get (JObj kvs) key dflt = Inr (case map_of kvs key of None \<Rightarrow> dflt | Some v \<Rightarrow> v)"
| "dict_get x key dflt = Inl AttributeError"

text \<open>\<open>x[key]\<close> for a \<open>str\<close> key.\<close>

fun getitem_key :: "json \<Rightarrow> string \<Rightarrow> exn + json" where
  "getitem_key (JObj kvs) key = (case map_of kvs key of None \<Rightarrow> Inl KeyError | Some v \<Rightarrow> Inr v)"
| "getitem_key x key = Inl TypeError"

text \<open>\<open>x[0]\<close>: no \<open>dict\<close> decoded from JSON has the key \<open>0\<close>.\<close>

fun getitem_0 :: "json \<Rightarrow> exn + json" where
  "getitem_0 (JArr xs) = (case xs of [] \<Rightarrow> Inl IndexError | x # rest \<Rightarrow> Inr x)"
| "getitem_0 (JStr s) = (case s of [] \<Rightarrow> Inl IndexError | c # rest \<Rightarrow> Inr (JStr [c]))"
| "getitem_0 (JObj kvs) = Inl KeyError"
| "getitem_0 x = Inl TypeError"

text \<open>\<open>for p in x\<close>: the items of a list, the keys of a dict, the characters of a str.\<close>

fun iterate :: "json \<Rightarrow> exn + json list" where
  "iterate (JArr xs) = Inr xs"
| "iterate (JObj kvs) = Inr (map (\<lambda>kv. JStr (fst kv)) kvs)"
| "iterate (JStr s) = Inr (map (\<lambda>c. JStr [c]) s)"
| "iterate x = Inl TypeError"

text \<open>\<open>key in x\<close> for a \<open>str\<close> key: a key of a dict, an item of a list, a substring of a str.\<close>

fun contains_key :: "string \<Rightarrow> json \<Rightarrow> exn + bool" where
  "contains_key key (JObj kvs) = Inr (map_of kvs key \<noteq> None)"
| "contains_key key (JArr xs) = Inr (List.member xs (JStr key))"
| "contains_key key (JStr s) = Inr (find_str key s \<noteq> None)"
| "contains_key key x = Inl TypeError"

fun is_dict :: "json \<Rightarrow> bool" where
  "is_dict (JObj kvs) = True"
| "is_dict x = False"

fun is_list :: "json \<Rightarrow> bool" where
  "is_list (JArr xs) = True"
| "is_list x = False"

text \<open>Applying an operation that can raise to every item of a list, in order.\<close>

fun map_raising :: "('a \<Rightarrow> exn + 'b) \<Rightarrow> 'a list \<Rightarrow> exn + 'b list" where
  "map_raising f [] = Inr []"
| "map_raising f (x # xs) =
     (case f x of
        Inl e \<Rightarrow> Inl e
      | Inr y \<Rightarrow> (case map_raising f xs of Inl e \<Rightarrow> Inl e | Inr ys \<Rightarrow> Inr (y # ys)))"

section \<open>Response extraction: \<open>_extract_json\<close>\<close>

text \<open>
  \<open>json.loads\<close> belongs to the Python standard library, not to the repository: the model
  takes the decoder as a parameter \<open>loads\<close>, where \<open>loads s = None\<close> stands for
  \<open>json.loads(s)\<close> raising \<open>JSONDecodeError\<close> (whose \<open>doc\<close> is \<open>s\<close>).

  \<open>_extract_json(text)\<close> decodes \<open>_extract_code(text, 'json')\<close>; when that raises it decodes
  the whole text; when that raises too, the second error propagates. The two files differ
  only in the messages they print on the way.
\<close>

definition extract_json :: "(string \<Rightarrow> json option) \<Rightarrow> string \<Rightarrow> exn + json" where
  "extract_json loads text =
     (case loads (extract_code text ''json'') of
        Some v \<Rightarrow> Inr v
      | None \<Rightarrow> (case loads text of Some v \<Rightarrow> Inr v | None \<Rightarrow> Inl (JSONDecodeError text)))"

section \<open>The world the scripts act on\<close>

text \<open>
  A line printed to the console: fixed text, text followed by a string value, or text
  followed by an exception. The model keeps the warnings, the error reports and the final
  status line of a run; the progress lines of the stages are left out.
\<close>

datatype line =
    Line string
  | LineStr string string
  | LineExn string exn

record world =
  files :: "string \<Rightarrow> string option"
  console :: "line list"

text \<open>
  A Python statement is a function from the world to its outcome (\<open>Inl\<close> a raised
  exception, \<open>Inr\<close> the value) and the world it leaves.
\<close>

type_synonym 'a py = "world \<Rightarrow> (exn + 'a) \<times> world"

definition py_return :: "'a \<Rightarrow> 'a py" where
  "py_return x = (\<lambda>w. (Inr x, w))"

definition py_raise :: "exn \<Rightarrow> 'a py" where
  "py_raise e = (\<lambda>w. (Inl e, w))"

definition lift :: "exn + 'a \<Rightarrow> 'a py" where
  "lift r = (\<lambda>w. (r, w))"

text \<open>One statement after another: an exception of the first skips the second.\<close>

definition py_bind :: "'a py \<Rightarrow> ('a \<Rightarrow> 'b py) \<Rightarrow> 'b py" where
  "py_bind m f = (\<lambda>w. case m w of (Inl e, w') \<Rightarrow> (Inl e, w') | (Inr x, w') \<Rightarrow> f x w')"

text \<open>\<open>try: m  except ... as e: handler e\<close>; the handler re-raises what it does not catch.\<close>

definition try_except :: "'a py \<Rightarrow> (exn \<Rightarrow> 'a py) \<Rightarrow> 'a py" where
  "try_except m handler =
     (\<lambda>w. case m w of (Inl e, w') \<Rightarrow> handler e w' | (Inr x, w') \<Rightarrow> (Inr x, w'))"

text \<open>
  \<open>try: m  finally: cleanup\<close>: the cleanup runs whatever \<open>m\<close> did; the outcome is the one
  of \<open>m\<close> unless the cleanup itself raises.
\<close>

definition try_finally :: "'a py \<Rightarrow> unit py \<Rightarrow> 'a py" where
  "try_finally m cleanup =
     (\<lambda>w. case m w of
            (r, w') \<Rightarrow> (case cleanup w' of (Inl e, w'') \<Rightarrow> (Inl e, w'') | (Inr u, w'') \<Rightarrow> (r, w'')))"

definition print_lines :: "line list \<Rightarrow> unit py" where
  "print_lines ls = (\<lambda>w. (Inr (), w\<lparr>console := console w @ ls\<rparr>))"

definition TEMP_PLOT_SCRIPT :: string where
  "TEMP_PLOT_SCRIPT = ''temp_plot_script.py''"

definition output_filename :: string where
  "output_filename = ''final_worksheet.tex''"

section \<open>The environment of a run\<close>

text \<open>
  What the run of the generated script does, as \<open>subprocess.run(['python', ...],
  capture_output=True, text=True, check=True, encoding='utf-8')\<close> sees it: the interpreter is
  not found, the spawn fails otherwise, the captured output is not UTF-8, or the child
  exits with a return code, its stdout and its stderr.
\<close>

datatype proc =
    PythonMissing
  | SpawnFailed
  | OutputUndecodable
  | Exited int string string

text \<open>
  The encoding a file is opened with: the locale's (\<open>open(path, 'w')\<close>, the scratch file of
  the first workflow) or UTF-8 (\<open>encoding='utf-8'\<close>).
\<close>

datatype encoding = LocaleEncoding | UTF8

text \<open>
  What \<open>with open(path, 'w') as f: f.write(text)\<close> does: the text is written; \<open>open\<close> raises
  and no file is created; or \<open>open\<close> creates (or empties) the file and \<open>f.write\<close> raises, as
  it does with \<open>UnicodeEncodeError\<close> on a text the encoding cannot encode.
\<close>

datatype write_outcome = Written | OpenRaises exn | WriteRaises exn

text \<open>The places where the scripts call \<open>call_openrouter\<close>.\<close>

datatype call_site = Syllabus | Plots | Part1 | Part2 | FullWorksheet | Review

text \<open>
  Everything a run takes from outside: the environment variable \<open>OPENROUTER_API_KEY\<close>, the
  line typed at the \<open>input\<close> prompt, the outcome of the HTTP exchange of each call (the
  content of the first choice, or the exception the exchange ends with), what running the
  generated script does (its outcome, and the files it leaves, given the files it finds),
  the decoder \<open>json.loads\<close>, what writing a text to a path does under an encoding, and the
  exception, if any, that \<open>os.remove\<close> ends with on a path. The prompt texts do not appear:
  the service's answer is any text at all, whatever the prompt was.
\<close>

record env =
  getenv_api_key :: "string option"
  input_topics :: string
  openrouter :: "call_site \<Rightarrow> exn + string"
  run_script :: "(string \<Rightarrow> string option) \<Rightarrow> proc \<times> (string \<Rightarrow> string option)"
  json_loads :: "string \<Rightarrow> json option"
  open_write :: "encoding \<Rightarrow> string \<Rightarrow> string \<Rightarrow> write_outcome"
  os_remove :: "string \<Rightarrow> exn option"

section \<open>Helpers shared by the two workflow files\<close>

text \<open>\<open>with open(path, 'w', ...) as f: f.write(text)\<close>\<close>

definition write_text :: "env \<Rightarrow> encoding \<Rightarrow> string \<Rightarrow> string \<Rightarrow> unit py" where
  "write_text env enc path text =
     (\<lambda>w. case open_write env enc path text of
            Written \<Rightarrow> (Inr (), w\<lparr>files := (files w)(path \<mapsto> text)\<rparr>)
          | OpenRaises e \<Rightarrow> (Inl e, w)
          | WriteRaises e \<Rightarrow> (Inl e, w\<lparr>files := (files w)(path \<mapsto> [])\<rparr>))"

text \<open>\<open>if os.path.exists(path): os.remove(path)\<close>; when \<open>os.remove\<close> raises, the path stays.\<close>

definition remove_if_exists :: "env \<Rightarrow> string \<Rightarrow> unit py" where
  "remove_if_exists env path =
     (\<lambda>w. if files w path \<noteq> None
          then (case os_remove env path of
                  None \<Rightarrow> (Inr (), w\<lparr>files := (files w)(path := None)\<rparr>)
                | Some e \<Rightarrow> (Inl e, w))
          else (Inr (), w))"

text \<open>\<open>load_api_key()\<close>: an unset or empty variable raises \<open>ValueError\<close>.\<close>

definition load_api_key :: "env \<Rightarrow> string py" where
  "load_api_key env =
     (case getenv_api_key env of
        None \<Rightarrow> py_raise ValueError
      | Some api_key \<Rightarrow> if api_key = [] then py_raise ValueError else py_return api_key)"

text \<open>
  \<open>call_openrouter(api_key, model, prompt)\<close>: a \<open>RequestException\<close> is reported and re-raised;
  any other exception of the exchange (a payload without the expected fields) propagates
  as it is.
\<close>

definition call_openrouter :: "env \<Rightarrow> call_site \<Rightarrow> string py" where
  "call_openrouter env site =
     (case openrouter env site of
        Inl e \<Rightarrow>
          if isinstance e RequestException_cls
          then py_bind (print_lines [LineExn ''API Request Error:'' e]) (\<lambda>u. py_raise e)
          else py_raise e
      | Inr content \<Rightarrow> py_return content)"

text \<open>\<open>json.loads(s)\<close> as a statement.\<close>

definition loads_or_raise :: "env \<Rightarrow> string \<Rightarrow> exn + json" where
  "loads_or_raise env s =
     (case json_loads env s of None \<Rightarrow> Inl (JSONDecodeError s) | Some v \<Rightarrow> Inr v)"

text \<open>\<open>subprocess.run(..., check=True)\<close>: a non-zero return code raises \<open>CalledProcessError\<close>.\<close>

definition subprocess_run :: "env \<Rightarrow> string py" where
  "subprocess_run env =
     (\<lambda>w. case run_script env (files w) of
            (p, files') \<Rightarrow>
              ((case p of
                  PythonMissing \<Rightarrow> Inl FileNotFoundError
                | SpawnFailed \<Rightarrow> Inl OSError
                | OutputUndecodable \<Rightarrow> Inl UnicodeDecodeError
                | Exited returncode out err \<Rightarrow>
                    if returncode \<noteq> 0 then Inl (CalledProcessError returncode out err)
                    else Inr out),
               w\<lparr>files := files'\<rparr>))"

text \<open>
  \<open>[p.get('description', '') for p in plots_json.get('plots', [])]\<close>, evaluated while
  \<open>review_worksheet\<close> builds its prompt, in both files.
\<close>

definition plot_descriptions :: "json \<Rightarrow> exn + json list" where
  "plot_descriptions plots_json =
     (case dict_get plots_json ''plots'' (JArr []) of
        Inl e \<Rightarrow> Inl e
      | Inr plots \<Rightarrow>
          (case iterate plots of
             Inl e \<Rightarrow> Inl e
           | Inr ps \<Rightarrow> map_raising (\<lambda>p. dict_get p ''description'' (JStr [])) ps))"

text \<open>
  \<open>if issues and issues[0]: ... for issue in issues: print(...)\<close> of \<open>review_worksheet\<close>:
  what it prints is progress, what it can raise is kept.
\<close>

definition report_issues :: "json \<Rightarrow> exn + unit" where
  "report_issues issues =
     (if truthy issues
      then (case getitem_0 issues of
              Inl e \<Rightarrow> Inl e
            | Inr first \<Rightarrow>
                if truthy first
                then (case iterate issues of Inl e \<Rightarrow> Inl e | Inr each \<Rightarrow> Inr ())
                else Inr ())
      else Inr ())"

text \<open>
  \<open>with open(output_filename, 'w', encoding='utf-8') as f: f.write(final_latex)\<close> of \<open>main\<close>:
  \<open>open\<close> creates or empties the file, \<open>write\<close> raises \<open>TypeError\<close> on anything but a \<open>str\<close>.
\<close>

definition write_final :: "env \<Rightarrow> json \<Rightarrow> unit py" where
  "write_final env final_latex =
     (case final_latex of
        JStr s \<Rightarrow> write_text env UTF8 output_filename s
      | other \<Rightarrow> py_bind (write_text env UTF8 output_filename []) (\<lambda>u. py_raise TypeError))"

text \<open>The two \<open>except\<close> clauses of \<open>main\<close>, the same in both files.\<close>

definition main_except :: "exn \<Rightarrow> unit py" where
  "main_except e =
     (if caught_by e [ValueError_cls, FileNotFoundError_cls, RequestException_cls,
                      CalledProcessError_cls]
      then print_lines [Line ''--- A critical error occurred ---'', LineExn ''Error:'' e,
                        Line ''Workflow aborted.'']
      else if isinstance e Exception_cls
      then print_lines [Line ''--- An unexpected error occurred ---'', LineExn ''Error:'' e,
                        Line ''Workflow aborted.'']
      else py_raise e)"

section \<open>The first workflow: \<open>ged_worksheet_workflow.py\<close>\<close>

text \<open>
  \<open>get_and_generate_syllabus(api_key)\<close>: an empty input line raises \<open>ValueError\<close>; the
  decoded answer must hold a list under \<open>sub_topics\<close>, else \<open>ValueError\<close>.
\<close>

definition check_sub_topics :: "json \<Rightarrow> exn + unit" where
  "check_sub_topics syllabus_json =
     (case contains_key ''sub_topics'' syllabus_json of
        Inl e \<Rightarrow> Inl e
      | Inr present \<Rightarrow>
          if \<not> present then Inl ValueError
          else (case getitem_key syllabus_json ''sub_topics'' of
                  Inl e \<Rightarrow> Inl e
                | Inr sub_topics \<Rightarrow> if \<not> is_list sub_topics then Inl ValueError else Inr ()))"

definition get_and_generate_syllabus_v1 :: "env \<Rightarrow> (string \<times> json) py" where
  "get_and_generate_syllabus_v1 env =
     (if input_topics env = [] then py_raise ValueError
      else
        py_bind (call_openrouter env Syllabus) (\<lambda>response_content.
        py_bind (lift (extract_json (json_loads env) response_content)) (\<lambda>syllabus_json.
        py_bind (lift (check_sub_topics syllabus_json)) (\<lambda>u.
        py_return (input_topics env, syllabus_json)))))"

text \<open>
  Lines 227 to 254 of \<open>generate_plots\<close>: write the scratch file (before the \<open>try\<close>
  statement), run it, decode its stdout, and remove the scratch file in the \<open>finally\<close> clause. The handler of \<open>JSONDecodeError\<close> prints
  \<open>result.stdout\<close>, which is the \<open>doc\<close> of the error: only \<open>json.loads(result.stdout)\<close> raises it.
\<close>

definition execute_plot_script_v1 :: "env \<Rightarrow> string \<Rightarrow> json py" where
  "execute_plot_script_v1 env python_code =
     py_bind (write_text env LocaleEncoding TEMP_PLOT_SCRIPT python_code) (\<lambda>u.
     try_finally
       (try_except
          (py_bind (subprocess_run env) (\<lambda>plots_json_str.
           py_bind (lift (loads_or_raise env plots_json_str)) (\<lambda>plots_json.
           py_return plots_json)))
          (\<lambda>e. case e of
                 CalledProcessError returncode out err \<Rightarrow>
                   py_bind (print_lines
                     [Line ''--- ERROR: The generated Python script failed to execute. ---'',
                      LineStr ''STDOUT:'' out, LineStr ''STDERR:'' err]) (\<lambda>u. py_raise e)
               | JSONDecodeError doc \<Rightarrow>
                   py_bind (print_lines
                     [Line ''--- ERROR: The generated script did not output valid JSON. ---'',
                      LineStr ''RAW OUTPUT:'' doc]) (\<lambda>u. py_raise e)
               | other \<Rightarrow> py_raise e))
       (remove_if_exists env TEMP_PLOT_SCRIPT))"

definition generate_plots_v1 :: "env \<Rightarrow> json \<Rightarrow> json py" where
  "generate_plots_v1 env syllabus_json =
     py_bind (call_openrouter env Plots) (\<lambda>response_content.
     execute_plot_script_v1 env (extract_code response_content ''python''))"

definition generate_worksheet_part1 :: "env \<Rightarrow> json \<Rightarrow> string py" where
  "generate_worksheet_part1 env syllabus_json =
     py_bind (call_openrouter env Part1) (\<lambda>response_content.
     py_return (extract_code response_content ''latex''))"

definition generate_worksheet_part2 :: "env \<Rightarrow> string \<Rightarrow> json \<Rightarrow> string py" where
  "generate_worksheet_part2 env latex_part1 plots_json =
     py_bind (call_openrouter env Part2) (\<lambda>response_content.
     py_return (extract_code response_content ''latex''))"

text \<open>\<open>review_worksheet\<close> of the first file: nothing is caught; \<open>review_json['revised_latex']\<close>.\<close>

definition review_worksheet_v1 :: "env \<Rightarrow> string \<Rightarrow> string \<Rightarrow> json \<Rightarrow> json py" where
  "review_worksheet_v1 env full_latex topics_list plots_json =
     py_bind (lift (plot_descriptions plots_json)) (\<lambda>descriptions.
     py_bind (call_openrouter env Review) (\<lambda>response_content.
     py_bind (lift (extract_json (json_loads env) response_content)) (\<lambda>review_json.
     py_bind (lift (dict_get review_json ''issues_found'' (JArr []))) (\<lambda>issues.
     py_bind (lift (report_issues issues)) (\<lambda>u.
     lift (getitem_key review_json ''revised_latex''))))))"

text \<open>The body of the \<open>try\<close> block of \<open>main\<close>, and \<open>main\<close>.\<close>

definition main_try_v1 :: "env \<Rightarrow> unit py" where
  "main_try_v1 env =
     py_bind (load_api_key env) (\<lambda>api_key.
     py_bind (get_and_generate_syllabus_v1 env) (\<lambda>(topics_list, syllabus_json).
     py_bind (generate_plots_v1 env syllabus_json) (\<lambda>plots_json.
     py_bind (generate_worksheet_part1 env syllabus_json) (\<lambda>latex_part1.
     py_bind (generate_worksheet_part2 env latex_part1 plots_json) (\<lambda>full_latex_draft.
     py_bind (review_worksheet_v1 env full_latex_draft topics_list plots_json) (\<lambda>final_latex.
     py_bind (write_final env final_latex) (\<lambda>u.
     print_lines [Line ''--- Workflow Complete! ---''])))))))"

definition main_v1 :: "env \<Rightarrow> unit py" where
  "main_v1 env = try_except (main_try_v1 env) main_except"

section \<open>The second workflow: \<open>ged_worksheet_workflow_2.py\<close>\<close>

text \<open>\<open>get_and_generate_syllabus\<close> of the second file does not look into the decoded answer.\<close>

definition get_and_generate_syllabus_v2 :: "env \<Rightarrow> (string \<times> json) py" where
  "get_and_generate_syllabus_v2 env =
     (if input_topics env = [] then py_raise ValueError
      else
        py_bind (call_openrouter env Syllabus) (\<lambda>response_content.
        py_bind (lift (extract_json (json_loads env) response_content)) (\<lambda>syllabus_json.
        py_return (input_topics env, syllabus_json))))"

text \<open>
  Lines 135 to 158 of \<open>generate_plots\<close>: as in the first file, but the handler of
  \<open>JSONDecodeError\<close> prints a warning and returns \<open>{"plots": []}\<close>.
\<close>

definition execute_plot_script_v2 :: "env \<Rightarrow> string \<Rightarrow> json py" where
  "execute_plot_script_v2 env python_code =
     py_bind (write_text env UTF8 TEMP_PLOT_SCRIPT python_code) (\<lambda>u.
     try_finally
       (try_except
          (py_bind (subprocess_run env) (\<lambda>plots_json_str.
           py_bind (lift (loads_or_raise env plots_json_str)) (\<lambda>plots_json.
           py_return plots_json)))
          (\<lambda>e. case e of
                 CalledProcessError returncode out err \<Rightarrow>
                   py_bind (print_lines
                     [Line ''--- ERROR: The generated Python script failed to execute. ---'',
                      LineStr ''STDERR:'' err]) (\<lambda>u. py_raise e)
               | JSONDecodeError doc \<Rightarrow>
                   py_bind (print_lines
                     [Line ''--- WARNING: The generated script did not output valid JSON or no plots were created. ---'',
                      LineStr ''RAW OUTPUT:'' doc]) (\<lambda>u.
                   py_return (JObj [(''plots'', JArr [])]))
               | other \<Rightarrow> py_raise e))
       (remove_if_exists env TEMP_PLOT_SCRIPT))"

definition generate_plots_v2 :: "env \<Rightarrow> json \<Rightarrow> json py" where
  "generate_plots_v2 env syllabus_json =
     py_bind (call_openrouter env Plots) (\<lambda>response_content.
     execute_plot_script_v2 env (extract_code response_content ''python''))"

text \<open>
  Lines 172 to 193 of \<open>generate_full_worksheet\<close>: the plot list is taken from a dict or is
  the list itself, and the loop \<open>for plot in plot_list\<close> runs when the list is truthy. The
  result is what the local variable \<open>plot\<close> is bound to after the loop: the last item, or
  nothing when the loop body never ran.
\<close>

definition plot_after_loop :: "json \<Rightarrow> exn + json option" where
  "plot_after_loop plots_json =
     (let plot_list =
        (case plots_json of
           JObj kvs \<Rightarrow> (case map_of kvs ''plots'' of None \<Rightarrow> JArr [] | Some v \<Rightarrow> v)
         | JArr xs \<Rightarrow> plots_json
         | other \<Rightarrow> JArr [])
      in if truthy plot_list
         then (case iterate plot_list of
                 Inl e \<Rightarrow> Inl e
               | Inr items \<Rightarrow> Inr (if items = [] then None else Some (last items)))
         else Inr None)"

text \<open>
  Lines 195 to 292: the prompt is an f-string; its replacement fields are evaluated in
  order: \<open>json.dumps(syllabus_json, indent=2)\<close>, \<open>syllabus_json.get('chapter_name', 'Science')\<close>,
  \<open>syllabus_json.get('lesson_title', 'Core Concepts')\<close>, \<open>plot_section_prompt\<close> and, on line 289,
  \<open>plot['path']\<close>, which reads the loop variable.
\<close>

definition worksheet_prompt :: "json \<Rightarrow> json \<Rightarrow> exn + unit" where
  "worksheet_prompt syllabus_json plots_json =
     (case plot_after_loop plots_json of
        Inl e \<Rightarrow> Inl e
      | Inr plot \<Rightarrow>
          (case dict_get syllabus_json ''chapter_name'' (JStr ''Science'') of
             Inl e \<Rightarrow> Inl e
           | Inr chapter_name \<Rightarrow>
               (case dict_get syllabus_json ''lesson_title'' (JStr ''Core Concepts'') of
                  Inl e \<Rightarrow> Inl e
                | Inr lesson_title \<Rightarrow>
                    (case plot of
                       None \<Rightarrow> Inl UnboundLocalError
                     | Some p \<Rightarrow>
                         (case getitem_key p ''path'' of
                            Inl e \<Rightarrow> Inl e
                          | Inr path \<Rightarrow> Inr ())))))"

definition generate_full_worksheet :: "env \<Rightarrow> json \<Rightarrow> json \<Rightarrow> string py" where
  "generate_full_worksheet env syllabus_json plots_json =
     py_bind (lift (worksheet_prompt syllabus_json plots_json)) (\<lambda>prompt.
     py_bind (call_openrouter env FullWorksheet) (\<lambda>response_content.
     py_return (extract_code response_content ''latex'')))"

text \<open>
  \<open>review_worksheet\<close> of the second file: the prompt is built outside the \<open>try\<close> block;
  inside it, a missing or falsy \<open>revised_latex\<close> raises \<open>KeyError\<close>; the clause
  \<open>except (json.JSONDecodeError, KeyError, AttributeError)\<close> prints the warning and returns
  the draft.
\<close>

definition review_fallback_warning :: "exn \<Rightarrow> line list" where
  "review_fallback_warning e =
     [Line ''--- WARNING: The review step failed to produce a valid response. ---'',
      LineExn ''Error details:'' e,
      Line ''The un-reviewed draft will be used instead. Please check the final .tex file carefully.'']"

definition review_worksheet_v2 :: "env \<Rightarrow> string \<Rightarrow> json \<Rightarrow> json \<Rightarrow> json py" where
  "review_worksheet_v2 env full_latex syllabus_json plots_json =
     py_bind (lift (plot_descriptions plots_json)) (\<lambda>descriptions.
     try_except
       (py_bind (call_openrouter env Review) (\<lambda>response_content.
        py_bind (lift (extract_json (json_loads env) response_content)) (\<lambda>review_json.
        py_bind (lift (dict_get review_json ''issues_found'' (JArr []))) (\<lambda>issues.
        py_bind (lift (report_issues issues)) (\<lambda>u.
        py_bind (lift (dict_get review_json ''revised_latex'' JNull)) (\<lambda>final_latex.
        if \<not> truthy final_latex then py_raise KeyError else py_return final_latex))))))
       (\<lambda>e. if caught_by e [JSONDecodeError_cls, KeyError_cls, AttributeError_cls]
            then py_bind (print_lines (review_fallback_warning e))
                   (\<lambda>u. py_return (JStr full_latex))
            else py_raise e))"

definition main_try_v2 :: "env \<Rightarrow> unit py" where
  "main_try_v2 env =
     py_bind (load_api_key env) (\<lambda>api_key.
     py_bind (get_and_generate_syllabus_v2 env) (\<lambda>(topics_list, syllabus_json).
     py_bind (generate_plots_v2 env syllabus_json) (\<lambda>plots_json.
     py_bind (generate_full_worksheet env syllabus_json plots_json) (\<lambda>full_latex_draft.
     py_bind (review_worksheet_v2 env full_latex_draft syllabus_json plots_json) (\<lambda>final_latex.
     py_bind (write_final env final_latex) (\<lambda>u.
     print_lines [Line ''--- Workflow Complete! ---'']))))))"

definition main_v2 :: "env \<Rightarrow> unit py" where
  "main_v2 env = try_except (main_try_v2 env) main_except"

section \<open>The JSON codec of the standard library\<close>

text \<open>
  \<open>json.dumps(v)\<close> with its default arguments, on the values of type \<open>json\<close>: separators
  \<open>", "\<close> and \<open>": "\<close>; in a string, the quote, the backslash and every character outside
  the printable ASCII range are escaped (\<open>ensure_ascii\<close>).
\<close>

definition printable :: "char \<Rightarrow> bool" where
  "printable c = (32 \<le> (of_char c :: nat) \<and> (of_char c :: nat) \<le> 126)"

definition hex_digit :: "nat \<Rightarrow> char" where
  "hex_digit n = ''0123456789abcdef'' ! n"

definition escape_char :: "char \<Rightarrow> string" where
  "escape_char c =
     (if c = CHR 0x22 then [CHR 0x5C, CHR 0x22]
      else if c = CHR 0x5C then [CHR 0x5C, CHR 0x5C]
      else if c = CHR 0x0A then [CHR 0x5C, CHR ''n'']
      else if c = CHR 0x0D then [CHR 0x5C, CHR ''r'']
      else if c = CHR 0x09 then [CHR 0x5C, CHR ''t'']
      else if c = CHR 0x08 then [CHR 0x5C, CHR ''b'']
      else if c = CHR 0x0C then [CHR 0x5C, CHR ''f'']
      else if printable c then [c]
      else [CHR 0x5C, CHR ''u'', CHR ''0'', CHR ''0'',
            hex_digit (of_char c div 16), hex_digit (of_char c mod 16)])"

definition dumps_str :: "string \<Rightarrow> string" where
  "dumps_str s = CHR 0x22 # concat (map escape_char s) @ [CHR 0x22]"

fun show_nat :: "nat \<Rightarrow> string" where
  "show_nat n = (if n < 10 then [''0123456789'' ! n]
                 else show_nat (n div 10) @ [''0123456789'' ! (n mod 10)])"

declare show_nat.simps [simp del]

definition show_int :: "int \<Rightarrow> string" where
  "show_int i = (if i < 0 then CHR ''-'' # show_nat (nat (- i)) else show_nat (nat i))"

fun join :: "string \<Rightarrow> string list \<Rightarrow> string" where
  "join sep [] = []"
| "join sep [x] = x"
| "join sep (x # y # ys) = x @ sep @ join sep (y # ys)"

fun json_dumps :: "json \<Rightarrow> string" where
  "json_dumps JNull = ''null''"
| "json_dumps (JBool b) = (if b then ''true'' else ''false'')"
| "json_dumps (JNum i) = show_int i"
| "json_dumps (JStr s) = dumps_str s"
| "json_dumps (JArr xs) = ''['' @ join '', '' (map json_dumps xs) @ '']''"
| "json_dumps (JObj kvs) =
     ''{'' @ join '', '' (map (\<lambda>kv. dumps_str (fst kv) @ '': '' @ json_dumps (snd kv)) kvs) @ ''}''"

text \<open>A character that is neither a backtick nor white space.\<close>

definition edge_char :: "char \<Rightarrow> bool" where
  "edge_char c = (c \<noteq> CHR ''`'' \<and> \<not> isspace c)"

text \<open>
  A decoder for the closed examples below, where a concrete \<open>json.loads\<close> is needed: it
  reads JSON texts whose numbers are integers, whose strings hold no \<open>\u\<close> escape and
  whose objects repeat no key, and returns \<open>None\<close> on every other text. The general
  theorems are stated for every decoder.
\<close>

datatype token =
    TLBrace | TRBrace | TLBrack | TRBrack | TColon | TComma
  | TStr string | TNum int | TTrue | TFalse | TNull

definition is_digit :: "char \<Rightarrow> bool" where
  "is_digit c = (c \<in> set ''0123456789'')"

definition digits_value :: "string \<Rightarrow> int" where
  "digits_value ds = foldl (\<lambda>a d. 10 * a + (of_char d - 48)) 0 ds"

definition json_space :: "char \<Rightarrow> bool" where
  "json_space c = (c \<in> set [CHR 0x20, CHR 0x09, CHR 0x0A, CHR 0x0D])"

definition unescape :: "char \<Rightarrow> char option" where
  "unescape e =
     (if e = CHR 0x22 \<or> e = CHR 0x5C \<or> e = CHR ''/'' then Some e
      else if e = CHR ''b'' then Some (CHR 0x08)
      else if e = CHR ''f'' then Some (CHR 0x0C)
      else if e = CHR ''n'' then Some (CHR 0x0A)
      else if e = CHR ''r'' then Some (CHR 0x0D)
      else if e = CHR ''t'' then Some (CHR 0x09)
      else None)"

fun lex_string :: "string \<Rightarrow> string \<Rightarrow> (string \<times> string) option" where
  "lex_string acc [] = None"
| "lex_string acc [c] = (if c = CHR 0x22 then Some (rev acc, []) else None)"
| "lex_string acc (c # e # cs) =
     (if c = CHR 0x22 then Some (rev acc, e # cs)
      else if c = CHR 0x5C
      then (case unescape e of None \<Rightarrow> None | Some d \<Rightarrow> lex_string (d # acc) cs)
      else if (of_char c :: nat) < 32 then None
      else lex_string (c # acc) (e # cs))"

definition lex_number :: "string \<Rightarrow> (int \<times> string) option" where
  "lex_number s =
     (let negative = startswith s ''-'';
          body = (if negative then drop 1 s else s);
          ds = takeWhile is_digit body;
          rest = dropWhile is_digit body
      in if ds = [] \<or> (1 < length ds \<and> hd ds = CHR ''0'')
            \<or> startswith rest ''.'' \<or> startswith rest ''e'' \<or> startswith rest ''E''
         then None
         else Some (if negative then - digits_value ds else digits_value ds, rest))"

fun lex :: "nat \<Rightarrow> string \<Rightarrow> token list option" where
  "lex 0 s = None"
| "lex (Suc n) [] = Some []"
| "lex (Suc n) (c # cs) =
     (if json_space c then lex n cs
      else if c = CHR ''{'' then map_option ((#) TLBrace) (lex n cs)
      else if c = CHR ''}'' then map_option ((#) TRBrace) (lex n cs)
      else if c = CHR ''['' then map_option ((#) TLBrack) (lex n cs)
      else if c = CHR '']'' then map_option ((#) TRBrack) (lex n cs)
      else if c = CHR '':'' then map_option ((#) TColon) (lex n cs)
      else if c = CHR '','' then map_option ((#) TComma) (lex n cs)
      else if c = CHR 0x22
      then (case lex_string [] cs of
              None \<Rightarrow> None
            | Some (s, rest) \<Rightarrow> map_option ((#) (TStr s)) (lex n rest))
      else if c = CHR ''-'' \<or> is_digit c
      then (case lex_number (c # cs) of
              None \<Rightarrow> None
            | Some (i, rest) \<Rightarrow> map_option ((#) (TNum i)) (lex n rest))
      else if startswith (c # cs) ''true'' then map_option ((#) TTrue) (lex n (drop 3 cs))
      else if startswith (c # cs) ''false'' then map_option ((#) TFalse) (lex n (drop 4 cs))
      else if startswith (c # cs) ''null'' then map_option ((#) TNull) (lex n (drop 3 cs))
      else None)"

fun parse_value :: "nat \<Rightarrow> token list \<Rightarrow> (json \<times> token list) option"
and parse_elems :: "nat \<Rightarrow> token list \<Rightarrow> (json list \<times> token list) option"
and parse_members :: "nat \<Rightarrow> token list \<Rightarrow> ((string \<times> json) list \<times> token list) option"
where
  "parse_value 0 ts = None"
| "parse_value (Suc n) [] = None"
| "parse_value (Suc n) (t # ts) =
     (case t of
        TNull \<Rightarrow> Some (JNull, ts)
      | TTrue \<Rightarrow> Some (JBool True, ts)
      | TFalse \<Rightarrow> Some (JBool False, ts)
      | TNum i \<Rightarrow> Some (JNum i, ts)
      | TStr s \<Rightarrow> Some (JStr s, ts)
      | TLBrack \<Rightarrow>
          if ts \<noteq> [] \<and> hd ts = TRBrack then Some (JArr [], tl ts)
          else (case parse_value n ts of
                  None \<Rightarrow> None
                | Some (v, r1) \<Rightarrow>
                    (case parse_elems n r1 of
                       None \<Rightarrow> None
                     | Some (vs, r2) \<Rightarrow> Some (JArr (v # vs), r2)))
      | TLBrace \<Rightarrow>
          if ts \<noteq> [] \<and> hd ts = TRBrace then Some (JObj [], tl ts)
          else (case parse_members n (TComma # ts) of
                  None \<Rightarrow> None
                | Some (ms, r) \<Rightarrow> Some (JObj ms, r))
      | other \<Rightarrow> None)"
| "parse_elems 0 ts = None"
| "parse_elems (Suc n) [] = None"
| "parse_elems (Suc n) (t # ts) =
     (if t = TRBrack then Some ([], ts)
      else if t = TComma
      then (case parse_value n ts of
              None \<Rightarrow> None
            | Some (v, r1) \<Rightarrow>
                (case parse_elems n r1 of
                   None \<Rightarrow> None
                 | Some (vs, r2) \<Rightarrow> Some (v # vs, r2)))
      else None)"
| "parse_members 0 ts = None"
| "parse_members (Suc n) [] = None"
| "parse_members (Suc n) (t # ts) =
     (if t = TRBrace then Some ([], ts)
      else if t = TComma
      then (case ts of
              TStr k # TColon # r0 \<Rightarrow>
                (case parse_value n r0 of
                   None \<Rightarrow> None
                 | Some (v, r1) \<Rightarrow>
                     (case parse_members n r1 of
                        None \<Rightarrow> None
                      | Some (ms, r2) \<Rightarrow>
                          if List.member (map fst ms) k then None
                          else Some ((k, v) # ms, r2)))
            | other \<Rightarrow> None)
      else None)"

definition decode_json :: "string \<Rightarrow> json option" where
  "decode_json s =
     (case lex (Suc (length s)) s of
        None \<Rightarrow> None
      | Some ts \<Rightarrow>
          (case parse_value (Suc (length ts)) ts of
             None \<Rightarrow> None
           | Some (v, rest) \<Rightarrow> if rest = [] then Some v else None))"

section \<open>The review stage's failure, in the specification's words\<close>

text \<open>
  The answer to the review call cannot be decoded, or what it decodes to lacks the revised
  artifact: it is not an object, or it is an object without the field \<open>revised_latex\<close>.
  In an object, the field \<open>issues_found\<close> is absent or a list, as the review prompt
  asks.
\<close>

definition review_response_unusable :: "(string \<Rightarrow> json option) \<Rightarrow> string \<Rightarrow> bool" where
  "review_response_unusable loads response_content =
     (case extract_json loads response_content of
        Inl e \<Rightarrow> True
      | Inr review_json \<Rightarrow>
          (case review_json of
             JObj kvs \<Rightarrow>
               map_of kvs ''revised_latex'' = None
               \<and> (case map_of kvs ''issues_found'' of None \<Rightarrow> True | Some issues \<Rightarrow> is_list issues)
           | other \<Rightarrow> True))"

section \<open>A concrete run\<close>

text \<open>
  The environment of the closed examples: the key is set, a topic is typed, the service
  answers the syllabus call with \<open>{"sub_topics": []}\<close>, the plot call with a one-line
  script and the worksheet calls with a one-line document; the outcome of the review
  call and of the script are the parameters. The script leaves the files as it finds them;
  every write and every removal succeeds.
\<close>

definition example_env :: "(exn + string) \<Rightarrow> proc \<Rightarrow> env" where
  "example_env review_outcome script_outcome =
     \<lparr> getenv_api_key = Some ''sk-example'',
       input_topics = ''Cells'',
       openrouter = (\<lambda>site. case site of
                        Syllabus \<Rightarrow> Inr ''{\"sub_topics\": []}''
                      | Plots \<Rightarrow> Inr ''print(1)''
                      | Review \<Rightarrow> review_outcome
                      | other \<Rightarrow> Inr ''draft''),
       run_script = (\<lambda>fs. (script_outcome, fs)),
       json_loads = decode_json,
       open_write = (\<lambda>enc path text. Written),
       os_remove = (\<lambda>path. None) \<rparr>"

text \<open>What a generated script that made one plot prints.\<close>

definition one_plot_stdout :: string where
  "one_plot_stdout = ''{\"plots\": [{\"path\": \"plots/a.png\", \"description\": \"A bar chart\"}]}''"

text \<open>
  The same run under a locale whose encoding is ASCII, with a generated script that holds
  an accented letter: under the locale's encoding a text with a character beyond 127
  cannot be written; UTF-8 encodes every text of the model.
\<close>

definition ascii_locale_write :: "encoding \<Rightarrow> string \<Rightarrow> string \<Rightarrow> write_outcome" where
  "ascii_locale_write enc path text =
     (if enc = UTF8 \<or> list_all (\<lambda>c. (of_char c :: nat) < 128) text then Written
      else WriteRaises UnicodeEncodeError)"

definition accented_script :: string where
  "accented_script = ''print('' @ [CHR 0x22, CHR 0xE9, CHR 0x22] @ '')''"

definition ascii_locale_env :: env where
  "ascii_locale_env =
     (example_env (Inr ''ok'') (Exited 0 one_plot_stdout []))
       \<lparr> openrouter := (\<lambda>site. case site of
                           Syllabus \<Rightarrow> Inr ''{\"sub_topics\": []}''
                         | Plots \<Rightarrow> Inr accented_script
                         | other \<Rightarrow> Inr ''draft''),
         open_write := ascii_locale_write \<rparr>"

definition empty_world :: world where
  "empty_world = \<lparr> files = (\<lambda>path. None), console = [] \<rparr>"

section \<open>Properties of the extraction helpers\<close>

lemma find_str_prefix: "p \<noteq> [] \<Longrightarrow> find_str p (p @ r) = Some 0"
  by (cases p) (simp_all add: startswith_def)

lemma find_str_None_Cons: "find_str p (c # cs) = None \<Longrightarrow> find_str p cs = None"
  by (simp split: if_splits)

lemma find_str_None_not_starts: "find_str p s = None \<Longrightarrow> \<not> startswith s p"
  by (cases s) (auto simp: startswith_def split: if_splits)

lemma fence_open_not_Nil: "fence_open language \<noteq> []"
  by (simp add: fence_open_def)

lemma no_close_at_head:
  assumes "find_str ''```'' (c # cs) = None"
  shows "\<not> startswith (c # cs @ fence_close) fence_close"
proof
  assume a: "startswith (c # cs @ fence_close) fence_close"
  have n: "\<not> startswith cs ''```''"
    using find_str_None_not_starts[OF find_str_None_Cons[OF assms]] .
  from a n show False
    by (cases cs; cases "tl cs"; cases "tl (tl cs)") (auto simp: startswith_def fence_close_def)
qed

lemma find_close_after:
  "find_str ''```'' X = None \<Longrightarrow> find_str fence_close (X @ fence_close) = Some (length X)"
proof (induction X)
  case Nil
  then show ?case by (simp add: fence_close_def startswith_def)
next
  case (Cons c cs)
  have "find_str ''```'' cs = None" using Cons.prems by (rule find_str_None_Cons)
  then have ih: "find_str fence_close (cs @ fence_close) = Some (length cs)" by (rule Cons.IH)
  have "\<not> startswith (c # cs @ fence_close) fence_close" using Cons.prems by (rule no_close_at_head)
  then show ?case using ih by simp
qed

lemma pattern_search_wrap:
  assumes "find_str ''```'' X = None"
  shows "pattern_search language (wrap_in_fence X language) = Some X"
proof -
  have "find_str (fence_open language) (fence_open language @ X @ fence_close) = Some 0"
    by (rule find_str_prefix[OF fence_open_not_Nil])
  moreover have "find_str fence_close (X @ fence_close) = Some (length X)"
    using assms by (rule find_close_after)
  ultimately show ?thesis
    by (simp add: pattern_search_def wrap_in_fence_def)
qed

text \<open>
  Claim C7, as the code has it. For a language tag without regular-expression
  metacharacters and a text \<open>X\<close> in which no fence \<open>```\<close> occurs, extracting the code from
  \<open>X\<close> wrapped in a tagged fence gives \<open>X\<close> with its leading and trailing white space
  removed: \<open>_extract_code\<close> returns \<open>match.group(1).strip()\<close>.
\<close>

theorem extract_code_wrap_in_fence:
  "regex_literal language \<Longrightarrow> find_str ''```'' X = None \<Longrightarrow>
   extract_code (wrap_in_fence X language) language = py_strip X"
  by (simp add: extract_code_def pattern_search_wrap)

theorem extract_code_wrap_in_fence_witness:
  "regex_literal ''python'' \<and> find_str ''```'' ''  x = 1'' = None
   \<and> extract_code (wrap_in_fence ''  x = 1'' ''python'') ''python'' = ''x = 1''"
proof -
  have 1: "regex_literal ''python''" by (simp add: regex_literal_def)
  have 2: "find_str ''```'' ''  x = 1'' = None" by (simp add: startswith_def)
  have 3: "py_strip ''  x = 1'' = ''x = 1''" by (simp add: py_strip_def isspace_def)
  show ?thesis using 1 2 3 extract_code_wrap_in_fence[OF 1 2] by simp
qed

text \<open>
  Claim C7 as the specification states it, with \<open>X\<close> itself as the result, fails on a text
  that starts with white space: an indented line comes back without its indentation.
\<close>

theorem extract_code_wrap_in_fence_counterexample:
  "find_str ''```'' ''  x = 1'' = None
   \<and> extract_code (wrap_in_fence ''  x = 1'' ''python'') ''python'' \<noteq> ''  x = 1''"
  by (simp add: extract_code_def pattern_search_def wrap_in_fence_def fence_open_def
      fence_close_def startswith_def py_strip_def isspace_def)

text \<open>
  Claim C8, as the code has it. When the tagged pattern does not match and the trimmed
  text is not wrapped in generic fences, \<open>_extract_code\<close> returns the text it was given,
  unchanged and untrimmed (\<open>return text\<close>). The function is total: it returns a text on
  every input.
\<close>

theorem extract_code_fallback:
  "pattern_search language text = None \<Longrightarrow>
   \<not> (startswith (py_strip text) ''```'' \<and> endswith (py_strip text) ''```'') \<Longrightarrow>
   extract_code text language = text"
  by (auto simp: extract_code_def)

theorem extract_code_fallback_witness:
  "pattern_search ''python'' '' print(1) '' = None
   \<and> \<not> (startswith (py_strip '' print(1) '') ''```'' \<and> endswith (py_strip '' print(1) '') ''```'')
   \<and> extract_code '' print(1) '' ''python'' = '' print(1) ''"
proof -
  have 1: "pattern_search ''python'' '' print(1) '' = None"
    by (simp add: pattern_search_def fence_open_def startswith_def)
  have 2: "\<not> (startswith (py_strip '' print(1) '') ''```'' \<and> endswith (py_strip '' print(1) '') ''```'')"
    by (simp add: py_strip_def isspace_def startswith_def)
  show ?thesis using 1 2 extract_code_fallback[OF 1 2] by simp
qed

text \<open>
  Claim C8 as the specification states it, with the trimmed text as the result, fails on
  a text with white space around it: the fallback returns the white space too.
\<close>

theorem extract_code_fallback_counterexample:
  "pattern_search ''python'' '' print(1) '' = None
   \<and> \<not> (startswith (py_strip '' print(1) '') ''```'' \<and> endswith (py_strip '' print(1) '') ''```'')
   \<and> extract_code '' print(1) '' ''python'' \<noteq> py_strip '' print(1) ''"
  by (simp add: extract_code_def pattern_search_def fence_open_def startswith_def
      py_strip_def isspace_def)

section \<open>Properties of the encoder\<close>

lemma printable_digit: "n < 10 \<Longrightarrow> printable (''0123456789'' ! n)"
proof -
  have "\<forall>c \<in> set ''0123456789''. printable c" by (simp add: printable_def)
  moreover assume "n < 10"
  then have "''0123456789'' ! n \<in> set ''0123456789''" by (intro nth_mem) simp
  ultimately show ?thesis by blast
qed

lemma printable_hex_digit: "n < 16 \<Longrightarrow> printable (hex_digit n)"
proof -
  have "\<forall>c \<in> set ''0123456789abcdef''. printable c" by (simp add: printable_def)
  moreover assume "n < 16"
  then have "''0123456789abcdef'' ! n \<in> set ''0123456789abcdef''" by (intro nth_mem) simp
  ultimately show ?thesis unfolding hex_digit_def by blast
qed

lemma printable_show_nat: "c \<in> set (show_nat n) \<Longrightarrow> printable c"
proof (induction n arbitrary: c rule: show_nat.induct)
  case (1 n)
  show ?case
  proof (cases "n < 10")
    case True
    with "1.prems" show ?thesis by (simp add: show_nat.simps[of n] printable_digit)
  next
    case False
    with "1.prems" "1.IH" show ?thesis
      by (auto simp: show_nat.simps[of n] printable_digit)
  qed
qed

lemma printable_show_int: "c \<in> set (show_int i) \<Longrightarrow> printable c"
  by (auto simp: show_int_def printable_show_nat split: if_splits) (simp add: printable_def)

lemma of_char_div16: "(of_char c :: nat) div 16 < 16"
proof -
  have "(of_char c :: nat) mod 256 < 256" by (rule mod_less_divisor) simp
  then have "(of_char c :: nat) < 256" by (simp only: of_char_mod_256)
  then show ?thesis by arith
qed

lemma printable_escape_char: "d \<in> set (escape_char c) \<Longrightarrow> printable d"
  unfolding escape_char_def
  by (auto split: if_splits simp: printable_hex_digit of_char_div16)
     (simp_all add: printable_def)

lemma printable_dumps_str: "c \<in> set (dumps_str s) \<Longrightarrow> printable c"
  by (auto simp: dumps_str_def printable_escape_char) (simp_all add: printable_def)

lemma in_set_join:
  "c \<in> set (join sep xs) \<Longrightarrow> c \<in> set sep \<or> (\<exists>x \<in> set xs. c \<in> set x)"
  by (induction sep xs rule: join.induct) auto

lemma printable_json_dumps: "c \<in> set (json_dumps v) \<Longrightarrow> printable c"
proof (induction v arbitrary: c)
  case JNull
  then show ?case by (auto simp: printable_def)
next
  case (JBool b)
  then show ?case by (auto simp: printable_def split: if_splits)
next
  case (JNum i)
  then show ?case by (simp add: printable_show_int)
next
  case (JStr s)
  then show ?case by (simp add: printable_dumps_str)
next
  case (JArr xs)
  from JArr.prems have "c \<in> set ''[]'' \<or> c \<in> set (join '', '' (map json_dumps xs))"
    by auto
  then show ?case
  proof
    assume "c \<in> set ''[]''"
    then show ?thesis by (auto simp: printable_def)
  next
    assume "c \<in> set (join '', '' (map json_dumps xs))"
    from in_set_join[OF this] show ?thesis
    proof
      assume "c \<in> set '', ''"
      then show ?thesis by (auto simp: printable_def)
    next
      assume "\<exists>x \<in> set (map json_dumps xs). c \<in> set x"
      then obtain x where "x \<in> set xs" "c \<in> set (json_dumps x)" by auto
      then show ?thesis by (rule JArr.IH)
    qed
  qed
next
  case (JObj kvs)
  let ?item = "\<lambda>kv. dumps_str (fst kv) @ '': '' @ json_dumps (snd kv)"
  from JObj.prems have "c \<in> set ''{}'' \<or> c \<in> set (join '', '' (map ?item kvs))"
    by auto
  then show ?case
  proof
    assume "c \<in> set ''{}''"
    then show ?thesis by (auto simp: printable_def)
  next
    assume "c \<in> set (join '', '' (map ?item kvs))"
    from in_set_join[OF this] show ?thesis
    proof
      assume "c \<in> set '', ''"
      then show ?thesis by (auto simp: printable_def)
    next
      assume "\<exists>x \<in> set (map ?item kvs). c \<in> set x"
      then obtain kv where kv: "kv \<in> set kvs" and "c \<in> set (?item kv)" by auto
      then have "c \<in> set (dumps_str (fst kv)) \<or> c \<in> set '': '' \<or> c \<in> set (json_dumps (snd kv))"
        by auto
      then show ?thesis
      proof (elim disjE)
        assume "c \<in> set (dumps_str (fst kv))"
        then show ?thesis by (rule printable_dumps_str)
      next
        assume "c \<in> set '': ''"
        then show ?thesis by (auto simp: printable_def)
      next
        assume 3: "c \<in> set (json_dumps (snd kv))"
        have "snd kv \<in> Basic_BNFs.snds kv" by (cases kv) simp
        with kv 3 show ?thesis using JObj.IH by blast
      qed
    qed
  qed
qed


lemma show_nat_not_Nil: "show_nat n \<noteq> []"
  by (subst show_nat.simps) simp

lemma show_nat_digits: "set (show_nat n) \<subseteq> set ''0123456789''"
proof (induction n rule: show_nat.induct)
  case (1 n)
  have d: "\<And>k. k < 10 \<Longrightarrow> ''0123456789'' ! k \<in> set ''0123456789''"
    by (intro nth_mem) simp
  show ?case
  proof (cases "n < 10")
    case True
    then show ?thesis using d[of n] by (subst show_nat.simps) simp
  next
    case False
    then show ?thesis using "1.IH" d[of "n mod 10"] by (subst show_nat.simps) simp
  qed
qed

lemma show_int_chars: "c \<in> set (show_int i) \<Longrightarrow> c \<in> set ''-0123456789''"
proof -
  assume "c \<in> set (show_int i)"
  then have "c = CHR ''-'' \<or> (\<exists>n. c \<in> set (show_nat n))"
    by (auto simp: show_int_def split: if_splits)
  then show ?thesis
  proof (elim disjE exE)
    assume "c = CHR ''-''"
    then show ?thesis by simp
  next
    fix n assume "c \<in> set (show_nat n)"
    then have "c \<in> set ''0123456789''" by (rule subsetD[OF show_nat_digits])
    then show ?thesis by simp
  qed
qed

lemma show_int_edge: "c \<in> set (show_int i) \<Longrightarrow> edge_char c"
proof -
  have "\<forall>c \<in> set ''-0123456789''. edge_char c" by (simp add: edge_char_def isspace_def)
  moreover assume "c \<in> set (show_int i)"
  then have "c \<in> set ''-0123456789''" by (rule show_int_chars)
  ultimately show ?thesis by blast
qed

lemma show_int_not_Nil: "show_int i \<noteq> []"
  by (simp add: show_int_def show_nat_not_Nil)

lemma json_dumps_edges:
  "json_dumps v \<noteq> [] \<and> edge_char (hd (json_dumps v)) \<and> edge_char (last (json_dumps v))"
proof (cases v)
  case (JNum i)
  have "hd (show_int i) \<in> set (show_int i)" "last (show_int i) \<in> set (show_int i)"
    using show_int_not_Nil by simp_all
  then have "edge_char (hd (show_int i))" "edge_char (last (show_int i))"
    by (simp_all add: show_int_edge)
  then show ?thesis using JNum show_int_not_Nil by simp
qed (simp_all add: dumps_str_def edge_char_def isspace_def)

lemma json_dumps_no_newline: "CHR 0x0A \<notin> set (json_dumps v)"
proof
  assume "CHR 0x0A \<in> set (json_dumps v)"
  then have "printable (CHR 0x0A)" by (rule printable_json_dumps)
  then show False by (simp add: printable_def)
qed

lemma py_strip_edges:
  assumes "s \<noteq> []" "\<not> isspace (hd s)" "\<not> isspace (last s)"
  shows "py_strip s = s"
proof -
  from assms(1,2) have 1: "dropWhile isspace s = s" by (cases s) simp_all
  have "hd (rev s) = last s" using assms(1) by (simp add: hd_rev)
  with assms(3) have "\<not> isspace (hd (rev s))" by simp
  moreover have "rev s \<noteq> []" using assms(1) by simp
  ultimately have 2: "dropWhile isspace (rev s) = rev s"
    by (cases "rev s") simp_all
  show ?thesis by (simp add: py_strip_def 1 2)
qed

lemma py_strip_json_dumps: "py_strip (json_dumps v) = json_dumps v"
  using json_dumps_edges[of v] by (intro py_strip_edges) (simp_all add: edge_char_def)

lemma find_str_None_notin: "c \<in> set p \<Longrightarrow> c \<notin> set s \<Longrightarrow> find_str p s = None"
proof (induction s)
  case Nil
  then show ?case by auto
next
  case (Cons a s)
  have "\<not> startswith (a # s) p"
  proof
    assume "startswith (a # s) p"
    then have "take (length p) (a # s) = p" by (simp only: startswith_def)
    then have "set p = set (take (length p) (a # s))" by (simp only:)
    also have "\<dots> \<subseteq> set (a # s)" by (rule set_take_subset)
    finally show False using Cons.prems by auto
  qed
  with Cons show ?case by simp
qed

lemma find_close_no_newline:
  "CHR 0x0A \<notin> set X \<Longrightarrow> find_str fence_close (X @ fence_close) = Some (length X)"
  by (induction X) (auto simp: fence_close_def startswith_def)


lemma extract_code_bare_json: "extract_code (json_dumps v) language = json_dumps v"
proof -
  have "find_str (fence_open language) (json_dumps v) = None"
    by (rule find_str_None_notin[of "CHR 0x0A"]) (simp_all add: fence_open_def json_dumps_no_newline)
  then have 1: "pattern_search language (json_dumps v) = None"
    by (simp add: pattern_search_def)
  have "\<not> startswith (json_dumps v) ''```''"
    using json_dumps_edges[of v] by (cases "json_dumps v") (auto simp: startswith_def edge_char_def)
  then show ?thesis by (simp add: extract_code_def 1 py_strip_json_dumps)
qed

lemma extract_code_fenced_json:
  "extract_code (wrap_in_fence (json_dumps v) language) language = json_dumps v"
proof -
  have "find_str (fence_open language) (fence_open language @ json_dumps v @ fence_close) = Some 0"
    by (rule find_str_prefix[OF fence_open_not_Nil])
  moreover have "find_str fence_close (json_dumps v @ fence_close) = Some (length (json_dumps v))"
    by (rule find_close_no_newline[OF json_dumps_no_newline])
  ultimately have "pattern_search language (wrap_in_fence (json_dumps v) language) = Some (json_dumps v)"
    by (simp add: pattern_search_def wrap_in_fence_def)
  then show ?thesis by (simp add: extract_code_def py_strip_json_dumps)
qed

text \<open>
  Claim C6. For every value \<open>v\<close> that the decoder reads back from its encoding,
  \<open>_extract_json\<close> returns \<open>v\<close> both from the encoding wrapped in a fence tagged \<open>json\<close> and
  from the bare encoding. An encoding holds no line break, and neither starts nor ends
  with white space or a backtick, so the fenced interior is the encoding and the bare
  text falls through \<open>_extract_code\<close> unchanged.
\<close>

theorem extract_json_roundtrip:
  assumes "loads (json_dumps v) = Some v"
  shows "extract_json loads (wrap_in_fence (json_dumps v) ''json'') = Inr v
       \<and> extract_json loads (json_dumps v) = Inr v"
  using assms by (simp add: extract_json_def extract_code_bare_json extract_code_fenced_json)

theorem extract_json_roundtrip_witness:
  "decode_json (json_dumps (JObj [(''x'', JNum 1)])) = Some (JObj [(''x'', JNum 1)])
   \<and> extract_json decode_json (wrap_in_fence (json_dumps (JObj [(''x'', JNum 1)])) ''json'')
       = Inr (JObj [(''x'', JNum 1)])
   \<and> extract_json decode_json (json_dumps (JObj [(''x'', JNum 1)])) = Inr (JObj [(''x'', JNum 1)])"
proof -
  have h: "decode_json (json_dumps (JObj [(''x'', JNum 1)])) = Some (JObj [(''x'', JNum 1)])"
    by code_simp
  show ?thesis
    using h extract_json_roundtrip[of decode_json "JObj [(''x'', JNum 1)]"] by simp
qed

section \<open>Properties of the runs\<close>

lemma remove_if_exists_eq:
  assumes "os_remove env path = None"
  shows "remove_if_exists env path w = (Inr (), w\<lparr>files := (files w)(path := None)\<rparr>)"
proof (cases "files w path = None")
  case True
  then have "(files w)(path := None) = files w" by (simp add: fun_upd_idem_iff)
  then show ?thesis using True by (simp add: remove_if_exists_def)
next
  case False
  then show ?thesis using assms by (simp add: remove_if_exists_def)
qed

lemma try_finally_remove:
  "os_remove env path = None \<Longrightarrow>
   try_finally m (remove_if_exists env path) w =
     (fst (m w), (snd (m w))\<lparr>files := (files (snd (m w)))(path := None)\<rparr>)"
  by (simp add: try_finally_def remove_if_exists_eq split: prod.splits)

lemma write_text_Written:
  "open_write env enc path text = Written \<Longrightarrow>
   write_text env enc path text w = (Inr (), w\<lparr>files := (files w)(path \<mapsto> text)\<rparr>)"
  by (simp add: write_text_def)

lemma py_bind_Inr: "m w = (Inr x, w') \<Longrightarrow> py_bind m f w = f x w'"
  by (simp add: py_bind_def)

lemma py_bind_Inl: "m w = (Inl e, w') \<Longrightarrow> py_bind m f w = (Inl e, w')"
  by (simp add: py_bind_def)

lemma call_openrouter_Inr:
  "openrouter env site = Inr content \<Longrightarrow> call_openrouter env site w = (Inr content, w)"
  by (simp add: call_openrouter_def py_return_def)

lemma call_openrouter_RequestException:
  "openrouter env site = Inl e \<Longrightarrow> isinstance e RequestException_cls \<Longrightarrow>
   call_openrouter env site w = (Inl e, w\<lparr>console := console w @ [LineExn ''API Request Error:'' e]\<rparr>)"
  by (simp add: call_openrouter_def py_bind_def print_lines_def py_raise_def)

text \<open>
  When the scratch file has been written and \<open>os.remove\<close> does not raise, the scratch file
  is gone after lines 227 to 254 (135 to 158), whatever the run of the script did.
\<close>

lemma scratch_file_removed_v1:
  "open_write env LocaleEncoding TEMP_PLOT_SCRIPT python_code = Written \<Longrightarrow>
   os_remove env TEMP_PLOT_SCRIPT = None \<Longrightarrow>
   files (snd (execute_plot_script_v1 env python_code w)) TEMP_PLOT_SCRIPT = None"
  by (simp add: execute_plot_script_v1_def py_bind_def write_text_def try_finally_remove)

lemma scratch_file_removed_v2:
  "open_write env UTF8 TEMP_PLOT_SCRIPT python_code = Written \<Longrightarrow>
   os_remove env TEMP_PLOT_SCRIPT = None \<Longrightarrow>
   files (snd (execute_plot_script_v2 env python_code w)) TEMP_PLOT_SCRIPT = None"
  by (simp add: execute_plot_script_v2_def py_bind_def write_text_def try_finally_remove)

text \<open>
  The write stands before the \<open>try\<close> statement: when \<open>f.write\<close> raises, the \<open>finally\<close> clause
  is never entered and the file that \<open>open\<close> created stays, in both files.
\<close>

lemma scratch_file_left_v1:
  "open_write env LocaleEncoding TEMP_PLOT_SCRIPT python_code = WriteRaises e \<Longrightarrow>
   execute_plot_script_v1 env python_code w =
     (Inl e, w\<lparr>files := (files w)(TEMP_PLOT_SCRIPT \<mapsto> [])\<rparr>)"
  by (simp add: execute_plot_script_v1_def py_bind_def write_text_def)

lemma scratch_file_left_v2:
  "open_write env UTF8 TEMP_PLOT_SCRIPT python_code = WriteRaises e \<Longrightarrow>
   execute_plot_script_v2 env python_code w =
     (Inl e, w\<lparr>files := (files w)(TEMP_PLOT_SCRIPT \<mapsto> [])\<rparr>)"
  by (simp add: execute_plot_script_v2_def py_bind_def write_text_def)

text \<open>
  Claim C1 at the failing input. The first workflow runs under a locale whose encoding
  is ASCII, and the service answers the plot call with a script that prints one accented
  letter (code point 233). \<open>open\<close> creates \<open>temp_plot_script.py\<close>, \<open>f.write\<close> raises
  \<open>UnicodeEncodeError\<close> on line 228, before the \<open>try\<close> statement of line 231 is reached, and
  \<open>generate_plots\<close> is left with the scratch file on disk: the \<open>finally\<close> clause that removes
  it never runs. \<open>main\<close> reports a critical error and aborts, and the file is still there.
\<close>

theorem scratch_file_left_on_write_error:
  "fst (generate_plots_v1 ascii_locale_env (JObj [(''sub_topics'', JArr [])]) empty_world)
     = Inl UnicodeEncodeError
   \<and> files (snd (generate_plots_v1 ascii_locale_env (JObj [(''sub_topics'', JArr [])])
                  empty_world)) TEMP_PLOT_SCRIPT = Some []
   \<and> console (snd (main_v1 ascii_locale_env empty_world))
       = [Line ''--- A critical error occurred ---'',
          LineExn ''Error:'' UnicodeEncodeError,
          Line ''Workflow aborted.'']
   \<and> files (snd (main_v1 ascii_locale_env empty_world)) TEMP_PLOT_SCRIPT = Some []"
  by code_simp

text \<open>
  The \<open>finally\<close> clause can fail too: when the script has left something at the path that
  \<open>os.remove\<close> refuses (a directory, a file it may not delete), the error of \<open>os.remove\<close> is
  what \<open>try ... finally\<close> raises, and the path stays.
\<close>

lemma try_finally_remove_raises:
  assumes "os_remove env path = Some e"
      and "files (snd (m w)) path \<noteq> None"
  shows "try_finally m (remove_if_exists env path) w = (Inl e, snd (m w))"
proof (cases "m w")
  case (Pair r w')
  with assms show ?thesis by (simp add: try_finally_def remove_if_exists_def)
qed

lemma remove_raises_v1:
  assumes "open_write env LocaleEncoding TEMP_PLOT_SCRIPT python_code = Written"
      and "run_script env ((files w)(TEMP_PLOT_SCRIPT \<mapsto> python_code)) = (Exited 0 out err, files')"
      and "json_loads env out = Some plots_json"
      and "files' TEMP_PLOT_SCRIPT \<noteq> None"
      and "os_remove env TEMP_PLOT_SCRIPT = Some e"
  shows "execute_plot_script_v1 env python_code w = (Inl e, w\<lparr>files := files'\<rparr>)"
  using assms
  by (simp add: execute_plot_script_v1_def py_bind_def write_text_def try_finally_remove_raises
      try_except_def subprocess_run_def lift_def loads_or_raise_def py_return_def)

lemma remove_raises_v2:
  assumes "open_write env UTF8 TEMP_PLOT_SCRIPT python_code = Written"
      and "run_script env ((files w)(TEMP_PLOT_SCRIPT \<mapsto> python_code)) = (Exited 0 out err, files')"
      and "json_loads env out = Some plots_json"
      and "files' TEMP_PLOT_SCRIPT \<noteq> None"
      and "os_remove env TEMP_PLOT_SCRIPT = Some e"
  shows "execute_plot_script_v2 env python_code w = (Inl e, w\<lparr>files := files'\<rparr>)"
  using assms
  by (simp add: execute_plot_script_v2_def py_bind_def write_text_def try_finally_remove_raises
      try_except_def subprocess_run_def lift_def loads_or_raise_def py_return_def)

lemma main_except_catches: "fst (try_except m main_except w) = Inr ()"
proof (cases "m w")
  case (Pair r w')
  then show ?thesis
    by (cases r) (simp_all add: try_except_def main_except_def print_lines_def)
qed

lemma main_except_reports:
  assumes "fst (m w) = Inl e"
  shows "\<exists>header. console (snd (try_except m main_except w)) =
           console (snd (m w)) @ [Line header, LineExn ''Error:'' e, Line ''Workflow aborted.'']"
proof (cases "m w")
  case (Pair r w')
  with assms have "r = Inl e" by simp
  with Pair show ?thesis
    by (simp add: try_except_def main_except_def print_lines_def)
qed

text \<open>
  Claim C10. \<open>main\<close> returns normally in every environment and from every world; when
  the body of its \<open>try\<close> block raises \<open>e\<close>, the last three lines on the console are a header,
  \<open>Error: e\<close> and \<open>Workflow aborted.\<close>
\<close>

theorem main_never_raises:
  "fst (main_v1 env w) = Inr () \<and> fst (main_v2 env w) = Inr ()
   \<and> (fst (main_try_v1 env w) = Inl e \<longrightarrow>
        (\<exists>header. console (snd (main_v1 env w)) =
           console (snd (main_try_v1 env w)) @
             [Line header, LineExn ''Error:'' e, Line ''Workflow aborted.'']))
   \<and> (fst (main_try_v2 env w) = Inl e \<longrightarrow>
        (\<exists>header. console (snd (main_v2 env w)) =
           console (snd (main_try_v2 env w)) @
             [Line header, LineExn ''Error:'' e, Line ''Workflow aborted.'']))"
  unfolding main_v1_def main_v2_def
  using main_except_reports[of "main_try_v1 env" w e] main_except_reports[of "main_try_v2 env" w e]
  by (simp add: main_except_catches)

lemma subprocess_run_exit_0:
  "run_script env (files w) = (Exited 0 out err, files') \<Longrightarrow>
   subprocess_run env w = (Inr out, w\<lparr>files := files'\<rparr>)"
  by (simp add: subprocess_run_def)

lemma execute_v1_decoded:
  assumes "open_write env LocaleEncoding TEMP_PLOT_SCRIPT python_code = Written"
      and "os_remove env TEMP_PLOT_SCRIPT = None"
      and "run_script env ((files w)(TEMP_PLOT_SCRIPT \<mapsto> python_code)) = (Exited 0 out err, files')"
      and "json_loads env out = Some plots_json"
  shows "execute_plot_script_v1 env python_code w =
           (Inr plots_json, w\<lparr>files := files'(TEMP_PLOT_SCRIPT := None)\<rparr>)"
  using assms
  by (simp add: execute_plot_script_v1_def py_bind_def write_text_def try_finally_remove
      try_except_def subprocess_run_def lift_def loads_or_raise_def py_return_def)

lemma execute_v2_decoded:
  assumes "open_write env UTF8 TEMP_PLOT_SCRIPT python_code = Written"
      and "os_remove env TEMP_PLOT_SCRIPT = None"
      and "run_script env ((files w)(TEMP_PLOT_SCRIPT \<mapsto> python_code)) = (Exited 0 out err, files')"
      and "json_loads env out = Some plots_json"
  shows "execute_plot_script_v2 env python_code w =
           (Inr plots_json, w\<lparr>files := files'(TEMP_PLOT_SCRIPT := None)\<rparr>)"
  using assms
  by (simp add: execute_plot_script_v2_def py_bind_def write_text_def try_finally_remove
      try_except_def subprocess_run_def lift_def loads_or_raise_def py_return_def)

lemma execute_v1_undecodable:
  assumes "open_write env LocaleEncoding TEMP_PLOT_SCRIPT python_code = Written"
      and "os_remove env TEMP_PLOT_SCRIPT = None"
      and "run_script env ((files w)(TEMP_PLOT_SCRIPT \<mapsto> python_code)) = (Exited 0 out err, files')"
      and "json_loads env out = None"
  shows "execute_plot_script_v1 env python_code w =
           (Inl (JSONDecodeError out),
            w\<lparr>files := files'(TEMP_PLOT_SCRIPT := None),
              console := console w @
                [Line ''--- ERROR: The generated script did not output valid JSON. ---'',
                 LineStr ''RAW OUTPUT:'' out]\<rparr>)"
  using assms
  by (simp add: execute_plot_script_v1_def py_bind_def write_text_def try_finally_remove
      try_except_def subprocess_run_def lift_def loads_or_raise_def py_return_def
      print_lines_def py_raise_def)

lemma execute_v2_undecodable:
  assumes "open_write env UTF8 TEMP_PLOT_SCRIPT python_code = Written"
      and "os_remove env TEMP_PLOT_SCRIPT = None"
      and "run_script env ((files w)(TEMP_PLOT_SCRIPT \<mapsto> python_code)) = (Exited 0 out err, files')"
      and "json_loads env out = None"
  shows "execute_plot_script_v2 env python_code w =
           (Inr (JObj [(''plots'', JArr [])]),
            w\<lparr>files := files'(TEMP_PLOT_SCRIPT := None),
              console := console w @
                [Line ''--- WARNING: The generated script did not output valid JSON or no plots were created. ---'',
                 LineStr ''RAW OUTPUT:'' out]\<rparr>)"
  using assms
  by (simp add: execute_plot_script_v2_def py_bind_def write_text_def try_finally_remove
      try_except_def subprocess_run_def lift_def loads_or_raise_def py_return_def
      print_lines_def py_raise_def)

text \<open>
  Claim C9, as the code has it. \<open>generate_plots\<close> checks nothing about the decoded
  stdout: when the scratch file is written and removed without an error, the script exits
  with zero and its stdout decodes to any value at all, that value is returned, in both
  files.
\<close>

theorem generate_plots_accepts_any_shape:
  assumes "openrouter env Plots = Inr content"
      and "open_write env LocaleEncoding TEMP_PLOT_SCRIPT (extract_code content ''python'') = Written"
      and "open_write env UTF8 TEMP_PLOT_SCRIPT (extract_code content ''python'') = Written"
      and "os_remove env TEMP_PLOT_SCRIPT = None"
      and "run_script env ((files w)(TEMP_PLOT_SCRIPT \<mapsto> extract_code content ''python''))
             = (Exited 0 out err, files')"
      and "json_loads env out = Some plots_json"
  shows "fst (generate_plots_v1 env syllabus_json w) = Inr plots_json
       \<and> fst (generate_plots_v2 env syllabus_json w) = Inr plots_json"
  using assms
  by (simp add: generate_plots_v1_def generate_plots_v2_def
      py_bind_Inr[OF call_openrouter_Inr] execute_v1_decoded execute_v2_decoded)


text \<open>
  Claim C4, as the code has it. The scratch file is written and removed without an
  error, the script exits with zero and its stdout cannot be decoded. In the first file
  \<open>generate_plots\<close> prints the raw stdout and raises the \<open>JSONDecodeError\<close>, whose \<open>doc\<close> is
  the raw stdout, and \<open>main\<close> reports a critical error and aborts. In the second file \<open>generate_plots\<close> prints a warning with the raw stdout and
  returns \<open>{"plots": []}\<close>: it raises nothing. In both, the scratch file is removed.
\<close>

theorem undecodable_stdout:
  assumes "load_api_key env w = (Inr api_key, w1)"
      and "get_and_generate_syllabus_v1 env w1 = (Inr (topics_list, syllabus_json), w2)"
      and "openrouter env Plots = Inr content"
      and "run_script env ((files w2)(TEMP_PLOT_SCRIPT \<mapsto> extract_code content ''python''))
             = (Exited 0 out err, files')"
      and "json_loads env out = None"
      and "open_write env LocaleEncoding TEMP_PLOT_SCRIPT (extract_code content ''python'') = Written"
      and "open_write env UTF8 TEMP_PLOT_SCRIPT (extract_code content ''python'') = Written"
      and "os_remove env TEMP_PLOT_SCRIPT = None"
  shows "generate_plots_v1 env syllabus_json w2 =
           (Inl (JSONDecodeError out),
            w2\<lparr>files := files'(TEMP_PLOT_SCRIPT := None),
               console := console w2 @
                 [Line ''--- ERROR: The generated script did not output valid JSON. ---'',
                  LineStr ''RAW OUTPUT:'' out]\<rparr>)
       \<and> main_v1 env w =
           (Inr (),
            w2\<lparr>files := files'(TEMP_PLOT_SCRIPT := None),
               console := console w2 @
                 [Line ''--- ERROR: The generated script did not output valid JSON. ---'',
                  LineStr ''RAW OUTPUT:'' out,
                  Line ''--- A critical error occurred ---'',
                  LineExn ''Error:'' (JSONDecodeError out),
                  Line ''Workflow aborted.'']\<rparr>)
       \<and> generate_plots_v2 env syllabus_json w2 =
           (Inr (JObj [(''plots'', JArr [])]),
            w2\<lparr>files := files'(TEMP_PLOT_SCRIPT := None),
               console := console w2 @
                 [Line ''--- WARNING: The generated script did not output valid JSON or no plots were created. ---'',
                  LineStr ''RAW OUTPUT:'' out]\<rparr>)"
proof -
  have g1: "generate_plots_v1 env syllabus_json w2 =
           (Inl (JSONDecodeError out),
            w2\<lparr>files := files'(TEMP_PLOT_SCRIPT := None),
               console := console w2 @
                 [Line ''--- ERROR: The generated script did not output valid JSON. ---'',
                  LineStr ''RAW OUTPUT:'' out]\<rparr>)"
    using assms(3-8)
    by (simp add: generate_plots_v1_def py_bind_Inr[OF call_openrouter_Inr] execute_v1_undecodable)
  have g2: "generate_plots_v2 env syllabus_json w2 =
           (Inr (JObj [(''plots'', JArr [])]),
            w2\<lparr>files := files'(TEMP_PLOT_SCRIPT := None),
               console := console w2 @
                 [Line ''--- WARNING: The generated script did not output valid JSON or no plots were created. ---'',
                  LineStr ''RAW OUTPUT:'' out]\<rparr>)"
    using assms(3-8)
    by (simp add: generate_plots_v2_def py_bind_Inr[OF call_openrouter_Inr] execute_v2_undecodable)
  have "main_try_v1 env w =
           (Inl (JSONDecodeError out),
            w2\<lparr>files := files'(TEMP_PLOT_SCRIPT := None),
               console := console w2 @
                 [Line ''--- ERROR: The generated script did not output valid JSON. ---'',
                  LineStr ''RAW OUTPUT:'' out]\<rparr>)"
    unfolding main_try_v1_def
    by (simp add: py_bind_Inr[of "load_api_key env", OF assms(1)]
        py_bind_Inr[of "get_and_generate_syllabus_v1 env", OF assms(2)]
        py_bind_Inl[of "generate_plots_v1 env syllabus_json", OF g1])
  then have "main_v1 env w =
           (Inr (),
            w2\<lparr>files := files'(TEMP_PLOT_SCRIPT := None),
               console := console w2 @
                 [Line ''--- ERROR: The generated script did not output valid JSON. ---'',
                  LineStr ''RAW OUTPUT:'' out,
                  Line ''--- A critical error occurred ---'',
                  LineExn ''Error:'' (JSONDecodeError out),
                  Line ''Workflow aborted.'']\<rparr>)"
    by (simp add: main_v1_def try_except_def main_except_def caught_by_def print_lines_def)
  with g1 g2 show ?thesis by simp
qed


lemma report_issues_list: "is_list issues \<Longrightarrow> report_issues issues = Inr ()"
  by (cases issues) (auto simp: report_issues_def split: list.splits)

lemma extract_json_Inl: "extract_json loads text = Inl e \<Longrightarrow> e = JSONDecodeError text"
  by (auto simp: extract_json_def split: option.splits)

lemma review_v2_falls_back:
  assumes "plot_descriptions plots_json = Inr descriptions"
      and "openrouter env Review = Inr response_content"
      and "review_response_unusable (json_loads env) response_content"
  shows "\<exists>e. caught_by e [JSONDecodeError_cls, KeyError_cls, AttributeError_cls]
           \<and> review_worksheet_v2 env draft syllabus_json plots_json w =
               (Inr (JStr draft), w\<lparr>console := console w @ review_fallback_warning e\<rparr>)"
proof (cases "extract_json (json_loads env) response_content")
  case (Inl e)
  then have e: "e = JSONDecodeError response_content" by (rule extract_json_Inl)
  have "review_worksheet_v2 env draft syllabus_json plots_json w =
          (Inr (JStr draft), w\<lparr>console := console w @ review_fallback_warning e\<rparr>)"
    using assms(1,2) Inl e
    by (simp add: review_worksheet_v2_def py_bind_def lift_def try_except_def
        call_openrouter_Inr caught_by_def print_lines_def py_return_def)
  moreover have "caught_by e [JSONDecodeError_cls, KeyError_cls, AttributeError_cls]"
    using e by (simp add: caught_by_def)
  ultimately show ?thesis by blast
next
  case (Inr review_json)
  show ?thesis
  proof (cases "is_dict review_json")
    case False
    then have g: "dict_get review_json ''issues_found'' (JArr []) = Inl AttributeError"
      by (cases review_json) simp_all
    have "review_worksheet_v2 env draft syllabus_json plots_json w =
            (Inr (JStr draft), w\<lparr>console := console w @ review_fallback_warning AttributeError\<rparr>)"
      using assms(1,2) Inr g
      by (simp add: review_worksheet_v2_def py_bind_def lift_def try_except_def
          call_openrouter_Inr caught_by_def print_lines_def py_return_def)
    moreover have "caught_by AttributeError [JSONDecodeError_cls, KeyError_cls, AttributeError_cls]"
      by (simp add: caught_by_def)
    ultimately show ?thesis by blast
  next
    case True
    then obtain kvs where kvs: "review_json = JObj kvs" by (cases review_json) simp_all
    from assms(3) Inr kvs have missing: "map_of kvs ''revised_latex'' = None"
      and issues: "case map_of kvs ''issues_found'' of None \<Rightarrow> True | Some issues \<Rightarrow> is_list issues"
      by (simp_all add: review_response_unusable_def)
    have r: "report_issues (case map_of kvs ''issues_found'' of None \<Rightarrow> JArr [] | Some v \<Rightarrow> v) = Inr ()"
      using issues by (intro report_issues_list) (simp split: option.splits)
    have "review_worksheet_v2 env draft syllabus_json plots_json w =
            (Inr (JStr draft), w\<lparr>console := console w @ review_fallback_warning KeyError\<rparr>)"
      using assms(1,2) Inr kvs missing r
      by (simp add: review_worksheet_v2_def py_bind_def lift_def try_except_def
          call_openrouter_Inr caught_by_def print_lines_def py_return_def py_raise_def)
    moreover have "caught_by KeyError [JSONDecodeError_cls, KeyError_cls, AttributeError_cls]"
      by (simp add: caught_by_def)
    ultimately show ?thesis by blast
  qed
qed

text \<open>
  Claim C2, as the code has it: the second file. When the run has reached the review
  stage with a draft, the review prompt can be built, the service answers, and the answer
  is unusable (\<open>review_response_unusable\<close>), then \<open>review_worksheet\<close> prints its warning and
  returns the draft, and \<open>main\<close>, when the write succeeds, writes the draft to
  \<open>final_worksheet.tex\<close> and completes.
\<close>

theorem review_failure_falls_back_to_draft:
  assumes "load_api_key env w = (Inr api_key, w1)"
      and "get_and_generate_syllabus_v2 env w1 = (Inr (topics_list, syllabus_json), w2)"
      and "generate_plots_v2 env syllabus_json w2 = (Inr plots_json, w3)"
      and "generate_full_worksheet env syllabus_json plots_json w3 = (Inr draft, w4)"
      and "plot_descriptions plots_json = Inr descriptions"
      and "openrouter env Review = Inr response_content"
      and "review_response_unusable (json_loads env) response_content"
      and "open_write env UTF8 output_filename draft = Written"
  shows "\<exists>e. review_worksheet_v2 env draft syllabus_json plots_json w4 =
               (Inr (JStr draft), w4\<lparr>console := console w4 @ review_fallback_warning e\<rparr>)
           \<and> main_v2 env w =
               (Inr (),
                w4\<lparr>files := (files w4)(output_filename \<mapsto> draft),
                   console := console w4 @ review_fallback_warning e @
                              [Line ''--- Workflow Complete! ---'']\<rparr>)"
proof -
  from review_v2_falls_back[OF assms(5-7)] obtain e where
    r: "review_worksheet_v2 env draft syllabus_json plots_json w4 =
               (Inr (JStr draft), w4\<lparr>console := console w4 @ review_fallback_warning e\<rparr>)"
    by blast
  have "main_try_v2 env w =
               (Inr (),
                w4\<lparr>files := (files w4)(output_filename \<mapsto> draft),
                   console := console w4 @ review_fallback_warning e @
                              [Line ''--- Workflow Complete! ---'']\<rparr>)"
    using assms(1-4,8) r
    by (simp add: main_try_v2_def py_bind_def write_final_def write_text_def print_lines_def)
  then have "main_v2 env w =
               (Inr (),
                w4\<lparr>files := (files w4)(output_filename \<mapsto> draft),
                   console := console w4 @ review_fallback_warning e @
                              [Line ''--- Workflow Complete! ---'']\<rparr>)"
    by (simp add: main_v2_def try_except_def)
  with r show ?thesis by blast
qed

text \<open>
  Which handlers a \<open>RequestException\<close> meets. The \<open>except\<close> clause of \<open>review_worksheet\<close> names
  \<open>json.JSONDecodeError\<close>, \<open>KeyError\<close> and \<open>AttributeError\<close>; the one \<open>RequestException\<close> it
  catches is the \<open>JSONDecodeError\<close> of \<open>requests\<close>, raised by \<open>response.json()\<close> on a body that
  is not JSON, which is a \<open>json.JSONDecodeError\<close> as well. Every other one passes through to
  the first \<open>except\<close> clause of \<open>main\<close>.
\<close>

lemma RequestException_handlers:
  "isinstance e RequestException_cls \<Longrightarrow>
   caught_by e [ValueError_cls, FileNotFoundError_cls, RequestException_cls, CalledProcessError_cls]
   \<and> (caught_by e [JSONDecodeError_cls, KeyError_cls, AttributeError_cls]
        \<longleftrightarrow> e = RequestsJSONDecodeError)"
  by (cases e) (simp_all add: caught_by_def)

text \<open>
  When the run of the second workflow has reached the review stage and the review call
  ends with a \<open>RequestException\<close> other than the \<open>JSONDecodeError\<close> of \<open>requests\<close>,
  \<open>call_openrouter\<close> reports it and re-raises, the \<open>except\<close> clause of \<open>review_worksheet\<close> does not
  catch it, and \<open>main\<close> reports a critical error and aborts: the final file is not written.
\<close>

lemma review_request_error_aborts:
  assumes "load_api_key env w = (Inr api_key, w1)"
      and "get_and_generate_syllabus_v2 env w1 = (Inr (topics_list, syllabus_json), w2)"
      and "generate_plots_v2 env syllabus_json w2 = (Inr plots_json, w3)"
      and "generate_full_worksheet env syllabus_json plots_json w3 = (Inr draft, w4)"
      and "plot_descriptions plots_json = Inr descriptions"
      and "openrouter env Review = Inl e"
      and "isinstance e RequestException_cls"
      and "e \<noteq> RequestsJSONDecodeError"
  shows "review_worksheet_v2 env draft syllabus_json plots_json w4 =
           (Inl e, w4\<lparr>console := console w4 @ [LineExn ''API Request Error:'' e]\<rparr>)
       \<and> main_v2 env w =
           (Inr (),
            w4\<lparr>console := console w4 @
                 [LineExn ''API Request Error:'' e,
                  Line ''--- A critical error occurred ---'',
                  LineExn ''Error:'' e,
                  Line ''Workflow aborted.'']\<rparr>)"
proof -
  from RequestException_handlers[OF assms(7)] assms(8)
  have h: "\<not> caught_by e [JSONDecodeError_cls, KeyError_cls, AttributeError_cls]"
       "caught_by e [ValueError_cls, FileNotFoundError_cls, RequestException_cls, CalledProcessError_cls]"
    by simp_all
  have r: "review_worksheet_v2 env draft syllabus_json plots_json w4 =
           (Inl e, w4\<lparr>console := console w4 @ [LineExn ''API Request Error:'' e]\<rparr>)"
    using assms(5) h
    by (simp add: review_worksheet_v2_def py_bind_def lift_def try_except_def
        call_openrouter_RequestException[OF assms(6,7)] py_raise_def)
  have "main_try_v2 env w =
           (Inl e, w4\<lparr>console := console w4 @ [LineExn ''API Request Error:'' e]\<rparr>)"
    unfolding main_try_v2_def
    by (simp add: py_bind_Inr[of "load_api_key env", OF assms(1)]
        py_bind_Inr[of "get_and_generate_syllabus_v2 env", OF assms(2)]
        py_bind_Inr[of "generate_plots_v2 env syllabus_json", OF assms(3)]
        py_bind_Inr[of "generate_full_worksheet env syllabus_json plots_json", OF assms(4)]
        py_bind_Inl[of "review_worksheet_v2 env draft syllabus_json plots_json", OF r])
  then have "main_v2 env w =
           (Inr (),
            w4\<lparr>console := console w4 @
                 [LineExn ''API Request Error:'' e,
                  Line ''--- A critical error occurred ---'',
                  LineExn ''Error:'' e,
                  Line ''Workflow aborted.'']\<rparr>)"
    using h by (simp add: main_v2_def try_except_def main_except_def print_lines_def)
  with r show ?thesis by simp
qed

lemma outcomeI: "fst p = r \<Longrightarrow> p = (r, snd p)"
  by (cases p) simp

theorem main_never_raises_witness:
  "fst (main_try_v2 (example_env (Inl Timeout) (Exited 0 one_plot_stdout [])) empty_world) = Inl Timeout
   \<and> fst (main_v1 (example_env (Inl Timeout) (Exited 0 one_plot_stdout [])) empty_world) = Inr ()
   \<and> fst (main_v2 (example_env (Inl Timeout) (Exited 0 one_plot_stdout [])) empty_world) = Inr ()
   \<and> (\<exists>header.
        console (snd (main_v2 (example_env (Inl Timeout) (Exited 0 one_plot_stdout [])) empty_world)) =
        console (snd (main_try_v2 (example_env (Inl Timeout) (Exited 0 one_plot_stdout [])) empty_world)) @
          [Line header, LineExn ''Error:'' Timeout, Line ''Workflow aborted.''])"
proof -
  have 1: "fst (main_try_v2 (example_env (Inl Timeout) (Exited 0 one_plot_stdout [])) empty_world) = Inl Timeout"
    by code_simp
  show ?thesis
    using 1 main_never_raises[of "example_env (Inl Timeout) (Exited 0 one_plot_stdout [])" empty_world Timeout]
    by simp
qed

section \<open>The runs at concrete inputs\<close>

theorem generate_plots_accepts_any_shape_witness:
  "json_loads (example_env (Inr ''ok'') (Exited 0 ''{}'' [])) ''{}'' = Some (JObj [])
   \<and> fst (generate_plots_v1 (example_env (Inr ''ok'') (Exited 0 ''{}'' [])) JNull empty_world)
       = Inr (JObj [])
   \<and> fst (generate_plots_v2 (example_env (Inr ''ok'') (Exited 0 ''{}'' [])) JNull empty_world)
       = Inr (JObj [])"
proof -
  have 1: "openrouter (example_env (Inr ''ok'') (Exited 0 ''{}'' [])) Plots = Inr ''print(1)''"
    by (simp add: example_env_def)
  have 2: "run_script (example_env (Inr ''ok'') (Exited 0 ''{}'' []))
             ((files empty_world)(TEMP_PLOT_SCRIPT \<mapsto> extract_code ''print(1)'' ''python''))
           = (Exited 0 ''{}'' [],
              (files empty_world)(TEMP_PLOT_SCRIPT \<mapsto> extract_code ''print(1)'' ''python''))"
    by (simp add: example_env_def)
  have 3: "json_loads (example_env (Inr ''ok'') (Exited 0 ''{}'' [])) ''{}'' = Some (JObj [])"
    by code_simp
  have 4: "open_write (example_env (Inr ''ok'') (Exited 0 ''{}'' [])) LocaleEncoding
             TEMP_PLOT_SCRIPT (extract_code ''print(1)'' ''python'') = Written"
    by (simp add: example_env_def)
  have 5: "open_write (example_env (Inr ''ok'') (Exited 0 ''{}'' [])) UTF8
             TEMP_PLOT_SCRIPT (extract_code ''print(1)'' ''python'') = Written"
    by (simp add: example_env_def)
  have 6: "os_remove (example_env (Inr ''ok'') (Exited 0 ''{}'' [])) TEMP_PLOT_SCRIPT = None"
    by (simp add: example_env_def)
  show ?thesis
    using 3 generate_plots_accepts_any_shape[OF 1 4 5 6 2 3, of JNull] by simp
qed

text \<open>
  Claim C9 as the specification states it fails: a script that exits with zero and prints
  \<open>{}\<close>, an object without the field \<open>plots\<close>, is accepted by \<open>generate_plots\<close>, and the
  first workflow runs to completion and writes the reviewed worksheet.
\<close>

theorem validation_counterexample:
  "fst (generate_plots_v1 (example_env (Inr ''{\"revised_latex\": \"final\"}'') (Exited 0 ''{}'' []))
          (JObj [(''sub_topics'', JArr [])]) empty_world) = Inr (JObj [])
   \<and> getitem_key (JObj []) ''plots'' = Inl KeyError
   \<and> console (snd (main_v1 (example_env (Inr ''{\"revised_latex\": \"final\"}'') (Exited 0 ''{}'' []))
                      empty_world)) = [Line ''--- Workflow Complete! ---'']
   \<and> files (snd (main_v1 (example_env (Inr ''{\"revised_latex\": \"final\"}'') (Exited 0 ''{}'' []))
                     empty_world)) output_filename = Some ''final''"
  by code_simp

text \<open>
  Claim C4 as the specification states it fails in the second file: the script exits with
  zero, its stdout \<open>oops\<close> cannot be decoded, and \<open>generate_plots\<close> returns \<open>{"plots": []}\<close>
  where the claim has it report a decode error.
\<close>

theorem undecodable_stdout_counterexample:
  "json_loads (example_env (Inr ''ok'') (Exited 0 ''oops'' [])) ''oops'' = None
   \<and> fst (generate_plots_v2 (example_env (Inr ''ok'') (Exited 0 ''oops'' []))
            (JObj [(''sub_topics'', JArr [])]) empty_world) = Inr (JObj [(''plots'', JArr [])])"
  by code_simp

text \<open>
  Claim C2 as the specification states it fails in the first file, whose \<open>review_worksheet\<close>
  catches nothing: the review answer \<open>nope\<close> cannot be decoded, \<open>main\<close> reports a
  critical error and aborts, and no final file is written.
\<close>

theorem review_failure_counterexample:
  "review_response_unusable decode_json ''nope''
   \<and> console (snd (main_v1 (example_env (Inr ''nope'') (Exited 0 one_plot_stdout [])) empty_world))
       = [Line ''--- A critical error occurred ---'',
          LineExn ''Error:'' (JSONDecodeError ''nope''),
          Line ''Workflow aborted.'']
   \<and> files (snd (main_v1 (example_env (Inr ''nope'') (Exited 0 one_plot_stdout [])) empty_world))
         output_filename = None"
  by code_simp

text \<open>
  The fallback of the second file does not cover every malformed answer: when
  \<open>issues_found\<close> is a non-zero number, \<open>issues[0]\<close> raises \<open>TypeError\<close>, which the \<open>except\<close>
  clause of \<open>review_worksheet\<close> does not name, and the run aborts.
\<close>

lemma review_issues_number_aborts:
  "console (snd (main_v2 (example_env (Inr ''{\"issues_found\": 5}'') (Exited 0 one_plot_stdout []))
                   empty_world))
     = [Line ''--- An unexpected error occurred ---'',
        LineExn ''Error:'' TypeError,
        Line ''Workflow aborted.'']"
  by code_simp

text \<open>
  Claim C3 at the failing input. The run of the second workflow reaches the review stage
  and the review call ends with a \<open>Timeout\<close>. \<open>call_openrouter\<close> reports it and re-raises,
  \<open>review_worksheet\<close>, whose docstring has it return the un-reviewed draft if the review
  fails, lets it through, and \<open>main\<close> reports a critical error and aborts: no final file is
  written, where the claim has the run complete with the draft.
\<close>

theorem review_timeout_aborts_second_workflow:
  "openrouter (example_env (Inl Timeout) (Exited 0 one_plot_stdout [])) Review = Inl Timeout
   \<and> fst (generate_full_worksheet (example_env (Inl Timeout) (Exited 0 one_plot_stdout []))
            (JObj [(''sub_topics'', JArr [])])
            (JObj [(''plots'', JArr [JObj [(''path'', JStr ''plots/a.png''),
                                           (''description'', JStr ''A bar chart'')]])])
            empty_world) = Inr ''draft''
   \<and> fst (review_worksheet_v2 (example_env (Inl Timeout) (Exited 0 one_plot_stdout [])) ''draft''
            (JObj [(''sub_topics'', JArr [])])
            (JObj [(''plots'', JArr [JObj [(''path'', JStr ''plots/a.png''),
                                           (''description'', JStr ''A bar chart'')]])])
            empty_world) = Inl Timeout
   \<and> console (snd (main_v2 (example_env (Inl Timeout) (Exited 0 one_plot_stdout [])) empty_world))
       = [LineExn ''API Request Error:'' Timeout,
          Line ''--- A critical error occurred ---'',
          LineExn ''Error:'' Timeout,
          Line ''Workflow aborted.'']
   \<and> files (snd (main_v2 (example_env (Inl Timeout) (Exited 0 one_plot_stdout [])) empty_world))
         output_filename = None"
  by code_simp

text \<open>
  One failure of the review call does fall back to the draft: a body that is not JSON.
  \<open>response.json()\<close> raises the \<open>JSONDecodeError\<close> of \<open>requests\<close>, \<open>call_openrouter\<close> reports it
  and re-raises, and the \<open>except\<close> clause of \<open>review_worksheet\<close> catches it as a
  \<open>json.JSONDecodeError\<close>.
\<close>

lemma review_body_not_json_falls_back:
  "console (snd (main_v2 (example_env (Inl RequestsJSONDecodeError) (Exited 0 one_plot_stdout []))
                   empty_world))
     = [LineExn ''API Request Error:'' RequestsJSONDecodeError]
       @ review_fallback_warning RequestsJSONDecodeError
       @ [Line ''--- Workflow Complete! ---'']
   \<and> files (snd (main_v2 (example_env (Inl RequestsJSONDecodeError) (Exited 0 one_plot_stdout []))
                     empty_world)) output_filename = Some ''draft''"
  by code_simp

text \<open>
  Claim C5 at the failing input. The script exits with zero and prints \<open>{"plots": []}\<close>;
  \<open>generate_plots\<close> returns the object with its empty list. In the second workflow
  \<open>generate_full_worksheet\<close> then raises \<open>UnboundLocalError\<close> while it builds its prompt: line 289
  reads \<open>plot['path']\<close>, and the loop that binds \<open>plot\<close> never ran. \<open>main\<close> reports an
  unexpected error and aborts, and no final file is written. The first workflow completes
  on the same input.
\<close>

theorem empty_plots_abort_second_workflow:
  "fst (generate_plots_v2 (example_env (Inr ''{\"revised_latex\": \"final\"}'')
                             (Exited 0 ''{\"plots\": []}'' []))
          (JObj [(''sub_topics'', JArr [])]) empty_world) = Inr (JObj [(''plots'', JArr [])])
   \<and> worksheet_prompt (JObj [(''sub_topics'', JArr [])]) (JObj [(''plots'', JArr [])])
       = Inl UnboundLocalError
   \<and> console (snd (main_v2 (example_env (Inr ''{\"revised_latex\": \"final\"}'')
                                (Exited 0 ''{\"plots\": []}'' [])) empty_world))
       = [Line ''--- An unexpected error occurred ---'',
          LineExn ''Error:'' UnboundLocalError,
          Line ''Workflow aborted.'']
   \<and> files (snd (main_v2 (example_env (Inr ''{\"revised_latex\": \"final\"}'')
                              (Exited 0 ''{\"plots\": []}'' [])) empty_world)) output_filename = None
   \<and> console (snd (main_v1 (example_env (Inr ''{\"revised_latex\": \"final\"}'')
                                (Exited 0 ''{\"plots\": []}'' [])) empty_world))
       = [Line ''--- Workflow Complete! ---'']"
  by code_simp

text \<open>
  The same for every syllabus object and every plot result whose list of plots is empty or
  absent.
\<close>

lemma worksheet_prompt_no_plots:
  assumes "is_dict syllabus_json"
      and "dict_get plots_json ''plots'' (JArr []) = Inr (JArr [])"
  shows "worksheet_prompt syllabus_json plots_json = Inl UnboundLocalError"
proof -
  from assms(2) obtain kvs where p: "plots_json = JObj kvs" by (cases plots_json) simp_all
  from assms(1) obtain svs where s: "syllabus_json = JObj svs" by (cases syllabus_json) simp_all
  from assms(2) p have "plot_after_loop plots_json = Inr None"
    by (simp add: plot_after_loop_def split: option.splits)
  then show ?thesis using s by (simp add: worksheet_prompt_def)
qed


theorem undecodable_stdout_witness:
  "json_loads (example_env (Inr ''ok'') (Exited 0 ''oops'' [])) ''oops'' = None
   \<and> fst (generate_plots_v1 (example_env (Inr ''ok'') (Exited 0 ''oops'' []))
            (JObj [(''sub_topics'', JArr [])]) empty_world) = Inl (JSONDecodeError ''oops'')
   \<and> console (snd (main_v1 (example_env (Inr ''ok'') (Exited 0 ''oops'' [])) empty_world))
       = [Line ''--- ERROR: The generated script did not output valid JSON. ---'',
          LineStr ''RAW OUTPUT:'' ''oops'',
          Line ''--- A critical error occurred ---'',
          LineExn ''Error:'' (JSONDecodeError ''oops''),
          Line ''Workflow aborted.'']
   \<and> fst (generate_plots_v2 (example_env (Inr ''ok'') (Exited 0 ''oops'' []))
            (JObj [(''sub_topics'', JArr [])]) empty_world) = Inr (JObj [(''plots'', JArr [])])"
proof -
  let ?E = "example_env (Inr ''ok'') (Exited 0 ''oops'' [])"
  let ?S = "JObj [(''sub_topics'', JArr [])]"
  have 1: "load_api_key ?E empty_world = (Inr ''sk-example'', empty_world)"
    by (simp add: load_api_key_def example_env_def py_return_def)
  have s: "extract_json decode_json ''{\"sub_topics\": []}'' = Inr ?S"
    by code_simp
  have c: "check_sub_topics ?S = Inr ()"
    by code_simp
  have 2: "get_and_generate_syllabus_v1 ?E empty_world = (Inr (''Cells'', ?S), empty_world)"
    using s c
    by (simp add: get_and_generate_syllabus_v1_def example_env_def call_openrouter_def
        py_bind_def lift_def py_return_def)
  have 3: "openrouter ?E Plots = Inr ''print(1)''"
    by (simp add: example_env_def)
  have 4: "run_script ?E ((files empty_world)(TEMP_PLOT_SCRIPT \<mapsto> extract_code ''print(1)'' ''python''))
           = (Exited 0 ''oops'' [],
              (files empty_world)(TEMP_PLOT_SCRIPT \<mapsto> extract_code ''print(1)'' ''python''))"
    by (simp add: example_env_def)
  have 5: "json_loads ?E ''oops'' = None"
    by code_simp
  have 6: "open_write ?E LocaleEncoding TEMP_PLOT_SCRIPT (extract_code ''print(1)'' ''python'')
             = Written"
    by (simp add: example_env_def)
  have 7: "open_write ?E UTF8 TEMP_PLOT_SCRIPT (extract_code ''print(1)'' ''python'') = Written"
    by (simp add: example_env_def)
  have 8: "os_remove ?E TEMP_PLOT_SCRIPT = None"
    by (simp add: example_env_def)
  show ?thesis
    using 5 undecodable_stdout[OF 1 2 3 4 5 6 7 8] by (simp add: empty_world_def)
qed

theorem review_failure_falls_back_to_draft_witness:
  "review_response_unusable decode_json ''nope''
   \<and> fst (main_v2 (example_env (Inr ''nope'') (Exited 0 one_plot_stdout [])) empty_world) = Inr ()
   \<and> files (snd (main_v2 (example_env (Inr ''nope'') (Exited 0 one_plot_stdout [])) empty_world))
         output_filename = Some ''draft''"
proof -
  let ?E = "example_env (Inr ''nope'') (Exited 0 one_plot_stdout [])"
  let ?S = "JObj [(''sub_topics'', JArr [])]"
  let ?P = "JObj [(''plots'', JArr [JObj [(''path'', JStr ''plots/a.png''),
                                          (''description'', JStr ''A bar chart'')]])]"
  let ?w1 = "snd (load_api_key ?E empty_world)"
  let ?w2 = "snd (get_and_generate_syllabus_v2 ?E ?w1)"
  let ?w3 = "snd (generate_plots_v2 ?E ?S ?w2)"
  let ?w4 = "snd (generate_full_worksheet ?E ?S ?P ?w3)"
  have 1: "load_api_key ?E empty_world = (Inr ''sk-example'', ?w1)"
    by (rule outcomeI) code_simp
  have 2: "get_and_generate_syllabus_v2 ?E ?w1 = (Inr (''Cells'', ?S), ?w2)"
    by (rule outcomeI) code_simp
  have 3: "generate_plots_v2 ?E ?S ?w2 = (Inr ?P, ?w3)"
    by (rule outcomeI) code_simp
  have 4: "generate_full_worksheet ?E ?S ?P ?w3 = (Inr ''draft'', ?w4)"
    by (rule outcomeI) code_simp
  have 5: "plot_descriptions ?P = Inr [JStr ''A bar chart'']"
    by code_simp
  have 6: "openrouter ?E Review = Inr ''nope''"
    by (simp add: example_env_def)
  have 7: "review_response_unusable (json_loads ?E) ''nope''"
    by code_simp
  have 8: "review_response_unusable decode_json ''nope''"
    by code_simp
  have 9: "open_write ?E UTF8 output_filename ''draft'' = Written"
    by (simp add: example_env_def)
  from review_failure_falls_back_to_draft[OF 1 2 3 4 5 6 7 9] obtain e where
    "main_v2 ?E empty_world =
       (Inr (), ?w4\<lparr>files := (files ?w4)(output_filename \<mapsto> ''draft''),
                     console := console ?w4 @ review_fallback_warning e @
                                [Line ''--- Workflow Complete! ---'']\<rparr>)"
    by blast
  then have "fst (main_v2 ?E empty_world) = Inr ()
      \<and> files (snd (main_v2 ?E empty_world)) output_filename = Some ''draft''"
    by simp
  with 8 show ?thesis by simp
qed



end
